theory Spec2Isabelle
  imports Complex_Main
begin

section \<open>Values, exceptions and external collaborators\<close>

text \<open>
  The script \<^verbatim>\<open>output.py\<close> drives an external simulator, reads the three CSV files
  the simulator writes, and collects the values into datasets, charts and a printed
  summary. The simulator, pandas' CSV reader and Python's \<^verbatim>\<open>int()\<close> on strings are
  not code of the script: they are parameters of the model (record \<open>env\<close>).

  A value read from a CSV file is either a number or a string: pandas yields a numpy
  number for a numeric column and a Python \<^verbatim>\<open>str\<close> for a column it cannot parse as
  numbers. Numbers are modelled as reals: IEEE rounding, NaN and 64-bit overflow are not
  part of the model. A numpy division by zero does not raise (it yields inf or nan);
  such a result is the value \<open>NonFinite\<close>.

  \<^verbatim>\<open>subprocess.run\<close> is called with \<^verbatim>\<open>shell=True\<close> in a directory the script has
  checked at start: the call returns, and what the script reads of its result is the
  exit code. Console output is not modelled, except that a format specification that
  raises does so in the model too.
\<close>

datatype exn =
  FileNotFoundError | EmptyDataError | ParserError | KeyError | IndexError | ValueError | TypeError

datatype cell = Num real | Str string

datatype npfloat = Fin real | NonFinite

text \<open>A DataFrame returned by \<^verbatim>\<open>pd.read_csv\<close>: its columns, in order, with their values.\<close>

type_synonym dataframe = "(string \<times> cell list) list"

text \<open>
  The command line handed to \<^verbatim>\<open>subprocess.run\<close>. Both branches of the source build
  \<^verbatim>\<open>./ns3 run 'ns3_rpl_dao_mitigation --flag=value ...'\<close>; the model keeps the list of
  \<^verbatim>\<open>--flag=value\<close> pairs in the order of the f-string.
\<close>

datatype arg = ArgBool bool | ArgInt int | ArgReal real

type_synonym cmd = "(string \<times> arg) list"

text \<open>The dict returned by \<^verbatim>\<open>run_simulation\<close>: seven fixed keys.\<close>

record metrics =
  pdr :: cell
  tx :: cell
  rx :: cell
  delay_ms :: cell
  ctrl_tx :: cell
  ctrl_rx :: cell
  ctrl_dropped :: cell

text \<open>
  The rows of the three datasets: the dict with the key \<^verbatim>\<open>'scenario'\<close> added, and for
  the sweeps the key \<^verbatim>\<open>'attack_pps'\<close> or \<^verbatim>\<open>'threshold'\<close>. Every dict of the source is
  built by one call of \<^verbatim>\<open>run_simulation\<close> (or by \<^verbatim>\<open>result.copy()\<close>) and is not changed
  after it has been appended, so the rows are plain values.
\<close>

record labelled = metrics +
  scenario :: string

record freq_row = labelled +
  attack_pps :: int

record thresh_row = labelled +
  threshold :: int

record 'w env =
  subprocess_run :: "cmd \<Rightarrow> 'w \<Rightarrow> int \<times> 'w"
  read_csv :: "string \<Rightarrow> 'w \<Rightarrow> exn + dataframe"
  int_of_str :: "string \<Rightarrow> int option"

text \<open>
  The state threaded through the script: the outside world (file system, simulator), and
  a history of the scenario runs made so far, each with its command line and with what
  \<^verbatim>\<open>run_simulation\<close> returned. The history is not a variable of the source; it records
  the calls so that statements about which runs were made can be written down.
\<close>

record 'w state =
  world :: 'w
  runs :: "(cmd \<times> metrics option) list"

definition bind_exn :: "exn + 'a \<Rightarrow> ('a \<Rightarrow> exn + 'b) \<Rightarrow> exn + 'b" where
  "bind_exn m f = (case m of Inl e \<Rightarrow> Inl e | Inr x \<Rightarrow> f x)"

section \<open>Python and numpy primitives used by the script\<close>

text \<open>\<^verbatim>\<open>df[c].values[0]\<close>: \<^verbatim>\<open>KeyError\<close> without the column, \<^verbatim>\<open>IndexError\<close> without a row.\<close>

definition first_value :: "'a list \<Rightarrow> exn + 'a" where
  "first_value vs = (case vs of [] \<Rightarrow> Inl IndexError | v # _ \<Rightarrow> Inr v)"

definition column_first :: "dataframe \<Rightarrow> string \<Rightarrow> exn + cell" where
  "column_first df c = (case map_of df c of None \<Rightarrow> Inl KeyError | Some vs \<Rightarrow> first_value vs)"

text \<open>\<^verbatim>\<open>v * 1000\<close>: a product for a number, a thousand repetitions for a \<^verbatim>\<open>str\<close>.\<close>

definition times_1000 :: "cell \<Rightarrow> cell" where
  "times_1000 v = (case v of Num x \<Rightarrow> Num (x * 1000) | Str t \<Rightarrow> Str (concat (replicate 1000 t)))"

text \<open>\<^verbatim>\<open>f"{v:.3f}"\<close> (any float format): \<^verbatim>\<open>ValueError\<close> for a \<^verbatim>\<open>str\<close>. The text is not kept.\<close>

definition format_f :: "cell \<Rightarrow> exn + unit" where
  "format_f v = (case v of Num x \<Rightarrow> Inr () | Str t \<Rightarrow> Inl ValueError)"

text \<open>\<^verbatim>\<open>int(v)\<close>: truncation towards zero for a number, the parser of Python for a \<^verbatim>\<open>str\<close>.\<close>

definition py_int :: "'w env \<Rightarrow> cell \<Rightarrow> exn + int" where
  "py_int E v =
     (case v of
        Num x \<Rightarrow> Inr (if 0 \<le> x then \<lfloor>x\<rfloor> else \<lceil>x\<rceil>)
      | Str t \<Rightarrow> (case int_of_str E t of None \<Rightarrow> Inl ValueError | Some i \<Rightarrow> Inr i))"

definition np_div :: "real \<Rightarrow> real \<Rightarrow> npfloat" where
  "np_div a b = (if b = 0 then NonFinite else Fin (a / b))"

definition np_times :: "npfloat \<Rightarrow> real \<Rightarrow> npfloat" where
  "np_times a c = (case a of Fin x \<Rightarrow> Fin (x * c) | NonFinite \<Rightarrow> NonFinite)"

section \<open>Configuration\<close>

definition NS3_PATH :: string where
  "NS3_PATH = ''/home/sandeep-1/ns-allinone-3.45/ns-3.45''"

definition pdr_csv :: string where
  "pdr_csv = NS3_PATH @ ''/results/run1_pdr.csv''"

definition delay_csv :: string where
  "delay_csv = NS3_PATH @ ''/results/run1_delay.csv''"

definition overhead_csv :: string where
  "overhead_csv = NS3_PATH @ ''/results/run1_overhead.csv''"

section \<open>run_simulation\<close>

text \<open>The f-strings of lines 33 to 44.\<close>

definition command_line :: "bool \<Rightarrow> int \<Rightarrow> int \<Rightarrow> int \<Rightarrow> real \<Rightarrow> int \<Rightarrow> cmd" where
  "command_line attack attacker_pps thresh n_nodes window sim_time =
     (if attack then
        [(''attack'', ArgBool True), (''attackerPps'', ArgInt attacker_pps),
         (''attackerPkt'', ArgInt 120), (''threshold'', ArgInt thresh),
         (''windowSec'', ArgReal window), (''nNodes'', ArgInt n_nodes),
         (''area'', ArgInt 60), (''rateKbps'', ArgInt 16), (''simTime'', ArgInt sim_time)]
      else
        [(''attack'', ArgBool False), (''nNodes'', ArgInt n_nodes),
         (''area'', ArgInt 60), (''rateKbps'', ArgInt 16), (''simTime'', ArgInt sim_time)])"

text \<open>The body of the \<^verbatim>\<open>try\<close> block, lines 53 to 65, in the world \<open>w\<close> the run has left.\<close>

definition read_results :: "'w env \<Rightarrow> 'w \<Rightarrow> exn + metrics" where
  "read_results E w =
     bind_exn (read_csv E pdr_csv w) (\<lambda>pdr_df.
     bind_exn (read_csv E delay_csv w) (\<lambda>delay_df.
     bind_exn (read_csv E overhead_csv w) (\<lambda>overhead_df.
     bind_exn (column_first pdr_df ''pdr'') (\<lambda>v_pdr.
     bind_exn (column_first pdr_df ''tx'') (\<lambda>v_tx.
     bind_exn (column_first pdr_df ''rx'') (\<lambda>v_rx.
     bind_exn (column_first delay_df ''avg_delay_s'') (\<lambda>v_delay.
     bind_exn (column_first overhead_df ''control_tx'') (\<lambda>v_ctx.
     bind_exn (column_first overhead_df ''control_rx'') (\<lambda>v_crx.
     bind_exn (column_first overhead_df ''control_dropped'') (\<lambda>v_drop.
       Inr \<lparr>pdr = v_pdr, tx = v_tx, rx = v_rx, delay_ms = times_1000 v_delay,
            ctrl_tx = v_ctx, ctrl_rx = v_crx, ctrl_dropped = v_drop\<rparr>))))))))))"

text \<open>
  \<^verbatim>\<open>run_simulation\<close>: the parameter \<^verbatim>\<open>threshold\<close> of the source is \<open>thresh\<close> here. A
  nonzero return code and any exception of the \<^verbatim>\<open>try\<close> block both return \<^verbatim>\<open>None\<close>.
\<close>

definition run_simulation ::
  "'w env \<Rightarrow> bool \<Rightarrow> int \<Rightarrow> int \<Rightarrow> int \<Rightarrow> real \<Rightarrow> int \<Rightarrow> 'w state \<Rightarrow> metrics option \<times> 'w state" where
  "run_simulation E attack attacker_pps thresh n_nodes window sim_time s =
     (let cmd = command_line attack attacker_pps thresh n_nodes window sim_time;
          (returncode, w) = subprocess_run E cmd (world s);
          result = (if returncode \<noteq> 0 then None
                    else case read_results E w of Inl e \<Rightarrow> None | Inr r \<Rightarrow> Some r)
      in (result, \<lparr>world = w, runs = runs s @ [(cmd, result)]\<rparr>))"

section \<open>The three experiments\<close>

definition with_scenario :: "metrics \<Rightarrow> string \<Rightarrow> labelled" where
  "with_scenario m l =
     \<lparr>pdr = pdr m, tx = tx m, rx = rx m, delay_ms = delay_ms m, ctrl_tx = ctrl_tx m,
      ctrl_rx = ctrl_rx m, ctrl_dropped = ctrl_dropped m, scenario = l\<rparr>"

definition with_attack_pps :: "metrics \<Rightarrow> string \<Rightarrow> int \<Rightarrow> freq_row" where
  "with_attack_pps m l pps =
     \<lparr>pdr = pdr m, tx = tx m, rx = rx m, delay_ms = delay_ms m, ctrl_tx = ctrl_tx m,
      ctrl_rx = ctrl_rx m, ctrl_dropped = ctrl_dropped m, scenario = l, attack_pps = pps\<rparr>"

definition with_threshold :: "metrics \<Rightarrow> string \<Rightarrow> int \<Rightarrow> thresh_row" where
  "with_threshold m l t =
     \<lparr>pdr = pdr m, tx = tx m, rx = rx m, delay_ms = delay_ms m, ctrl_tx = ctrl_tx m,
      ctrl_rx = ctrl_rx m, ctrl_dropped = ctrl_dropped m, scenario = l, threshold = t\<rparr>"

text \<open>
  The block repeated three times in \<^verbatim>\<open>collect_baseline_data\<close>: a dict that was returned
  (it has seven keys, so it is true for \<^verbatim>\<open>if result:\<close>) is labelled and appended, and its
  \<^verbatim>\<open>pdr\<close> is printed with \<^verbatim>\<open>:.3f\<close>.
\<close>

definition append_labelled :: "labelled list \<Rightarrow> metrics option \<Rightarrow> string \<Rightarrow> exn + labelled list" where
  "append_labelled scenarios result l =
     (case result of
        None \<Rightarrow> Inr scenarios
      | Some m \<Rightarrow> bind_exn (format_f (pdr m)) (\<lambda>_. Inr (scenarios @ [with_scenario m l])))"

definition collect_baseline_data :: "'w env \<Rightarrow> 'w state \<Rightarrow> (exn + labelled list) \<times> 'w state" where
  "collect_baseline_data E s =
     (let (result1, s1) = run_simulation E False 800 20 25 1 120 s in
      case append_labelled [] result1 ''RPL'' of
        Inl e \<Rightarrow> (Inl e, s1)
      | Inr scenarios1 \<Rightarrow>
         (let (result2, s2) = run_simulation E True 800 1000000000 25 1 120 s1 in
          case append_labelled scenarios1 result2 ''InsecRPL'' of
            Inl e \<Rightarrow> (Inl e, s2)
          | Inr scenarios2 \<Rightarrow>
             (let (result3, s3) = run_simulation E True 800 20 25 1 120 s2 in
              case append_labelled scenarios2 result3 ''SecRPL'' of
                Inl e \<Rightarrow> (Inl e, s3)
              | Inr scenarios3 \<Rightarrow> (Inr scenarios3, s3))))"

definition frequencies :: "int list" where
  "frequencies = [200, 400, 600, 800, 1000]"

text \<open>The \<^verbatim>\<open>for pps in frequencies\<close> loop; nothing in it can raise.\<close>

fun frequency_loop ::
  "'w env \<Rightarrow> int list \<Rightarrow> freq_row list \<Rightarrow> 'w state \<Rightarrow> freq_row list \<times> 'w state" where
  "frequency_loop E [] all_data s = (all_data, s)"
| "frequency_loop E (pps # rest) all_data s =
     (let (result1, s1) = run_simulation E True pps 1000000000 25 1 120 s;
          all_data1 = (case result1 of None \<Rightarrow> all_data
                       | Some m \<Rightarrow> all_data @ [with_attack_pps m ''InsecRPL'' pps]);
          (result2, s2) = run_simulation E True pps 20 25 1 120 s1;
          all_data2 = (case result2 of None \<Rightarrow> all_data1
                       | Some m \<Rightarrow> all_data1 @ [with_attack_pps m ''SecRPL'' pps])
      in frequency_loop E rest all_data2 s2)"

definition collect_attack_frequency_data :: "'w env \<Rightarrow> 'w state \<Rightarrow> freq_row list \<times> 'w state" where
  "collect_attack_frequency_data E s =
     (let (all_data, s1) = frequency_loop E frequencies [] s;
          (result, s2) = run_simulation E False 800 20 25 1 120 s1
      in (case result of
            None \<Rightarrow> all_data
          | Some m \<Rightarrow> all_data @ map (\<lambda>pps. with_attack_pps m ''RPL'' pps) frequencies,
          s2))"

definition thresholds :: "int list" where
  "thresholds = [5, 10, 20, 30, 50]"

text \<open>The \<^verbatim>\<open>for thresh in thresholds\<close> loop; the print of \<^verbatim>\<open>pdr\<close> follows the append.\<close>

fun threshold_loop ::
  "'w env \<Rightarrow> int list \<Rightarrow> thresh_row list \<Rightarrow> 'w state \<Rightarrow> (exn + thresh_row list) \<times> 'w state" where
  "threshold_loop E [] all_data s = (Inr all_data, s)"
| "threshold_loop E (thresh # rest) all_data s =
     (let (result, s1) = run_simulation E True 800 thresh 25 1 120 s in
      case result of
        None \<Rightarrow> threshold_loop E rest all_data s1
      | Some m \<Rightarrow>
         (case format_f (pdr m) of
            Inl e \<Rightarrow> (Inl e, s1)
          | Inr _ \<Rightarrow> threshold_loop E rest (all_data @ [with_threshold m ''SecRPL'' thresh]) s1))"

definition collect_threshold_data :: "'w env \<Rightarrow> 'w state \<Rightarrow> (exn + thresh_row list) \<times> 'w state" where
  "collect_threshold_data E s = threshold_loop E thresholds [] s"

section \<open>Charts\<close>

text \<open>
  What \<^verbatim>\<open>create_research_style_graphs\<close> hands to the charting library: for every
  figure that is saved, its file name and the data of its \<^verbatim>\<open>plot\<close>, \<^verbatim>\<open>axhline\<close> and
  \<^verbatim>\<open>bar\<close> calls. Styling (fonts, colours, markers, axis labels) is left out.
\<close>

datatype element =
  Plot string "npfloat list" "cell list"
| Hline string cell
| Bars "string list" "cell list"

record chart =
  filename :: string
  elements :: "element list"

definition known_scenarios :: "string list" where
  "known_scenarios = [''RPL'', ''InsecRPL'', ''SecRPL'']"

text \<open>
  Graphs 1 to 3 differ in the plotted column and in the file name only.
  \<^verbatim>\<open>sort_values\<close> is a stable sort here; pandas' default is not, which shows only
  where two rows of one scenario share an \<^verbatim>\<open>attack_pps\<close>.
\<close>

definition frequency_series :: "(freq_row \<Rightarrow> cell) \<Rightarrow> freq_row list \<Rightarrow> string \<Rightarrow> element list" where
  "frequency_series column freq_df sc =
     (let data = sort_key attack_pps (filter (\<lambda>r. scenario r = sc) freq_df) in
      if data = [] then []
      else [Plot sc (map (\<lambda>r. np_div 1 (of_int (attack_pps r))) data) (map column data)])"

definition frequency_graph :: "(freq_row \<Rightarrow> cell) \<Rightarrow> string \<Rightarrow> freq_row list \<Rightarrow> chart option" where
  "frequency_graph column name freq_df =
     (if freq_df = [] then None
      else Some \<lparr>filename = name,
                 elements = concat (map (frequency_series column freq_df) known_scenarios)\<rparr>)"

definition graph1 :: "freq_row list \<Rightarrow> chart option" where
  "graph1 freq_df = frequency_graph ctrl_rx ''figure1_dao_overhead.png'' freq_df"

definition graph2 :: "freq_row list \<Rightarrow> chart option" where
  "graph2 freq_df = frequency_graph pdr ''figure2_pdr_vs_frequency.png'' freq_df"

definition graph3 :: "freq_row list \<Rightarrow> chart option" where
  "graph3 freq_df = frequency_graph delay_ms ''figure3_delay_vs_frequency.png'' freq_df"

definition threshold_series :: "(thresh_row \<Rightarrow> cell) \<Rightarrow> thresh_row list \<Rightarrow> element" where
  "threshold_series column thresh_df =
     (let data = sort_key threshold thresh_df in
      Plot ''SecRPL'' (map (\<lambda>r. Fin (of_int (threshold r))) data) (map column data))"

text \<open>Graph 4: the baseline lines are read with \<^verbatim>\<open>.values[0]\<close> under \<^verbatim>\<open>if not baseline_df.empty\<close>.\<close>

definition graph4 :: "labelled list \<Rightarrow> thresh_row list \<Rightarrow> exn + chart option" where
  "graph4 baseline_df thresh_df =
     (if thresh_df = [] then Inr None
      else if baseline_df = [] then
        Inr (Some \<lparr>filename = ''figure4_pdr_vs_threshold.png'',
                   elements = [threshold_series pdr thresh_df]\<rparr>)
      else
        bind_exn (first_value (map pdr (filter (\<lambda>r. scenario r = ''RPL'') baseline_df)))
          (\<lambda>rpl_pdr.
        bind_exn (first_value (map pdr (filter (\<lambda>r. scenario r = ''InsecRPL'') baseline_df)))
          (\<lambda>insec_pdr.
        Inr (Some \<lparr>filename = ''figure4_pdr_vs_threshold.png'',
                   elements = [threshold_series pdr thresh_df,
                               Hline ''RPL (Baseline)'' rpl_pdr,
                               Hline ''InsecRPL'' insec_pdr]\<rparr>))))"

definition graph5 :: "thresh_row list \<Rightarrow> chart option" where
  "graph5 thresh_df =
     (if thresh_df = [] then None
      else Some \<lparr>filename = ''figure5_overhead_vs_threshold.png'',
                 elements = [threshold_series ctrl_rx thresh_df]\<rparr>)"

text \<open>A comprehension or loop that raises at the first element that does.\<close>

fun each_exn :: "('a \<Rightarrow> exn + 'b) \<Rightarrow> 'a list \<Rightarrow> exn + unit" where
  "each_exn f [] = Inr ()"
| "each_exn f (x # xs) = bind_exn (f x) (\<lambda>_. each_exn f xs)"

text \<open>\<^verbatim>\<open>colors[s]\<close>: the dict has the three scenario names as keys.\<close>

definition color_of :: "string \<Rightarrow> exn + unit" where
  "color_of sc = (if sc \<in> set known_scenarios then Inr () else Inl KeyError)"

definition graph6 :: "'w env \<Rightarrow> labelled list \<Rightarrow> exn + chart option" where
  "graph6 E baseline_df =
     (if baseline_df = [] then Inr None
      else
        (let scenarios = map scenario baseline_df;
             pdr_vals = map pdr baseline_df;
             delay_vals = map delay_ms baseline_df;
             ctrl_vals = map ctrl_rx baseline_df
         in bind_exn (each_exn color_of scenarios) (\<lambda>_.
            bind_exn (each_exn format_f pdr_vals) (\<lambda>_.
            bind_exn (each_exn color_of scenarios) (\<lambda>_.
            bind_exn (each_exn format_f delay_vals) (\<lambda>_.
            bind_exn (each_exn color_of scenarios) (\<lambda>_.
            bind_exn (each_exn (py_int E) ctrl_vals) (\<lambda>_.
              Inr (Some \<lparr>filename = ''figure6_comparison.png'',
                         elements = [Bars scenarios pdr_vals, Bars scenarios delay_vals,
                                     Bars scenarios ctrl_vals]\<rparr>)))))))))"

definition saved :: "chart option \<Rightarrow> chart list" where
  "saved c = (case c of None \<Rightarrow> [] | Some f \<Rightarrow> [f])"

text \<open>
  The figures saved, in order, and the exception that ended the function, if any.
\<close>

definition create_research_style_graphs ::
  "'w env \<Rightarrow> labelled list \<Rightarrow> freq_row list \<Rightarrow> thresh_row list \<Rightarrow> chart list \<times> exn option" where
  "create_research_style_graphs E baseline_df freq_df thresh_df =
     (let figures = saved (graph1 freq_df) @ saved (graph2 freq_df) @ saved (graph3 freq_df) in
      case graph4 baseline_df thresh_df of
        Inl e \<Rightarrow> (figures, Some e)
      | Inr g4 \<Rightarrow>
         (let figures = figures @ saved g4 @ saved (graph5 thresh_df) in
          case graph6 E baseline_df of
            Inl e \<Rightarrow> (figures, Some e)
          | Inr g6 \<Rightarrow> (figures @ saved g6, None)))"

section \<open>Summary\<close>

text \<open>
  What \<^verbatim>\<open>print_summary_table\<close> prints, line by line, and the exception that ended it, if
  any. The parameters \<^verbatim>\<open>freq_df\<close> and \<^verbatim>\<open>thresh_df\<close> of the source are not used by it.
\<close>

datatype line =
  Banner
| Baseline_table "labelled list"
| Key_findings
| Improvement npfloat
| Attack_impact real
| Blocked int

definition print_summary_table ::
  "'w env \<Rightarrow> labelled list \<Rightarrow> freq_row list \<Rightarrow> thresh_row list \<Rightarrow> line list \<times> exn option" where
  "print_summary_table E baseline_df freq_df thresh_df =
     (if baseline_df = [] then ([Banner], None)
      else
        (let out = [Banner, Baseline_table baseline_df] in
         if ''InsecRPL'' \<in> set (map scenario baseline_df) \<and> ''SecRPL'' \<in> set (map scenario baseline_df)
         then
           (case (hd (map pdr (filter (\<lambda>r. scenario r = ''InsecRPL'') baseline_df)),
                  hd (map pdr (filter (\<lambda>r. scenario r = ''SecRPL'') baseline_df))) of
              (Num insec_pdr, Num sec_pdr) \<Rightarrow>
                (let improvement = np_times (np_div (sec_pdr - insec_pdr) insec_pdr) 100;
                     out = out @ [Key_findings, Improvement improvement,
                                  Attack_impact ((1 - insec_pdr) * 100)];
                     blocked = hd (map ctrl_dropped (filter (\<lambda>r. scenario r = ''SecRPL'') baseline_df))
                 in case py_int E blocked of
                      Inl e \<Rightarrow> (out, Some e)
                    | Inr b \<Rightarrow> (out @ [Blocked b], None))
            | _ \<Rightarrow> (out, Some TypeError))
         else (out, None)))"

section \<open>Fixtures\<close>

text \<open>
  A scripted simulator for concrete runs: the world is the number of runs made; run
  number \<open>n\<close> (counted from 1) exits with \<open>code n\<close> and leaves the files \<open>files n\<close>.
\<close>

definition scripted :: "(nat \<Rightarrow> int) \<Rightarrow> (nat \<Rightarrow> string \<Rightarrow> exn + dataframe) \<Rightarrow> nat env" where
  "scripted code files =
     \<lparr>subprocess_run = (\<lambda>c n. (code (Suc n), Suc n)),
      read_csv = (\<lambda>p n. files n p),
      int_of_str = (\<lambda>t. None)\<rparr>"

definition artifacts :: "cell \<Rightarrow> cell \<Rightarrow> cell \<Rightarrow> cell \<Rightarrow> cell \<Rightarrow> string \<Rightarrow> exn + dataframe" where
  "artifacts v_tx v_rx v_pdr v_delay v_drop p =
     (if p = pdr_csv then Inr [(''tx'', [v_tx]), (''rx'', [v_rx]), (''pdr'', [v_pdr])]
      else if p = delay_csv then Inr [(''avg_delay_s'', [v_delay])]
      else if p = overhead_csv then
        Inr [(''control_tx'', [Num 500]), (''control_rx'', [Num 400]), (''control_dropped'', [v_drop])]
      else Inl FileNotFoundError)"

definition start :: "nat state" where
  "start = \<lparr>world = 0, runs = []\<rparr>"

section \<open>Notions of the specification\<close>

text \<open>
  The invocations the specification names: a run without attack, and a run with attack at
  a given attacker rate and mitigation threshold, all other parameters at the values the
  experiments use (120 attacker packets, window 1.0 s, 25 nodes, area 60, 16 kbps, 120 s).
\<close>

definition no_attack_invocation :: cmd where
  "no_attack_invocation =
     [(''attack'', ArgBool False), (''nNodes'', ArgInt 25), (''area'', ArgInt 60),
      (''rateKbps'', ArgInt 16), (''simTime'', ArgInt 120)]"

definition attack_invocation :: "int \<Rightarrow> int \<Rightarrow> cmd" where
  "attack_invocation pps thr =
     [(''attack'', ArgBool True), (''attackerPps'', ArgInt pps), (''attackerPkt'', ArgInt 120),
      (''threshold'', ArgInt thr), (''windowSec'', ArgReal 1), (''nNodes'', ArgInt 25),
      (''area'', ArgInt 60), (''rateKbps'', ArgInt 16), (''simTime'', ArgInt 120)]"

definition attack_only_flags :: "string list" where
  "attack_only_flags = [''attackerPps'', ''attackerPkt'', ''threshold'', ''windowSec'']"

text \<open>The raw value of an artifact: the first value of column \<open>c\<close> of the file \<open>p\<close>.\<close>

definition raw_value :: "'w env \<Rightarrow> 'w \<Rightarrow> string \<Rightarrow> string \<Rightarrow> exn + cell" where
  "raw_value E w p c = bind_exn (read_csv E p w) (\<lambda>df. column_first df c)"

text \<open>
  An artifact the script cannot use: the file cannot be read (it is missing, or empty so
  that pandas raises), or one of the columns the script reads from it is missing or has
  no row.
\<close>

definition unusable :: "'w env \<Rightarrow> 'w \<Rightarrow> string \<Rightarrow> string list \<Rightarrow> bool" where
  "unusable E w p cols =
     (case read_csv E p w of
        Inl e \<Rightarrow> True
      | Inr df \<Rightarrow> list_ex (\<lambda>c. map_of df c = None \<or> map_of df c = Some []) cols)"

definition is_num :: "cell \<Rightarrow> bool" where
  "is_num v = (case v of Num x \<Rightarrow> True | Str t \<Rightarrow> False)"

text \<open>The invariant of a RunRecord, on the values of one run.\<close>

definition in_range :: "cell \<Rightarrow> cell \<Rightarrow> cell \<Rightarrow> cell \<Rightarrow> cell \<Rightarrow> cell \<Rightarrow> bool" where
  "in_range v_pdr v_tx v_rx v_ctx v_crx v_drop =
     (case (v_pdr, v_tx, v_rx, v_ctx, v_crx, v_drop) of
        (Num p, Num t, Num r, Num ct, Num cr, Num cd) \<Rightarrow>
          0 \<le> p \<and> p \<le> 1 \<and> r \<le> t \<and> 0 \<le> t \<and> 0 \<le> r \<and> 0 \<le> ct \<and> 0 \<le> cr \<and> 0 \<le> cd
      | _ \<Rightarrow> False)"

definition record_invariant :: "'a metrics_scheme \<Rightarrow> bool" where
  "record_invariant r = in_range (pdr r) (tx r) (rx r) (ctrl_tx r) (ctrl_rx r) (ctrl_dropped r)"

text \<open>
  The same invariant on the artifacts of a world: whenever the six values can be read,
  they are numbers in range.
\<close>

definition artifacts_invariant :: "'w env \<Rightarrow> 'w \<Rightarrow> bool" where
  "artifacts_invariant E w =
     (case (raw_value E w pdr_csv ''pdr'', raw_value E w pdr_csv ''tx'',
            raw_value E w pdr_csv ''rx'', raw_value E w overhead_csv ''control_tx'',
            raw_value E w overhead_csv ''control_rx'',
            raw_value E w overhead_csv ''control_dropped'') of
        (Inr v_pdr, Inr v_tx, Inr v_rx, Inr v_ctx, Inr v_crx, Inr v_drop) \<Rightarrow>
          in_range v_pdr v_tx v_rx v_ctx v_crx v_drop
      | _ \<Rightarrow> True)"

text \<open>The rows a list of run results contributes: none for a failed run.\<close>

definition contributed :: "metrics option \<Rightarrow> string \<Rightarrow> labelled list" where
  "contributed out l = (case out of None \<Rightarrow> [] | Some m \<Rightarrow> [with_scenario m l])"

fun threshold_rows :: "int list \<Rightarrow> metrics option list \<Rightarrow> thresh_row list" where
  "threshold_rows (t # ts) (out # outs) =
     (case out of None \<Rightarrow> [] | Some m \<Rightarrow> [with_threshold m ''SecRPL'' t]) @ threshold_rows ts outs"
| "threshold_rows ts outs = []"

fun frequency_rows :: "int list \<Rightarrow> metrics option list \<Rightarrow> freq_row list" where
  "frequency_rows (pps # rest) (out1 # out2 # outs) =
     (case out1 of None \<Rightarrow> [] | Some m \<Rightarrow> [with_attack_pps m ''InsecRPL'' pps]) @
     (case out2 of None \<Rightarrow> [] | Some m \<Rightarrow> [with_attack_pps m ''SecRPL'' pps]) @
     frequency_rows rest outs"
| "frequency_rows rest outs = []"

definition frequency_invocations :: "int list \<Rightarrow> cmd list" where
  "frequency_invocations rates =
     concat (map (\<lambda>pps. [attack_invocation pps 1000000000, attack_invocation pps 20]) rates)"

definition numeric_pdr :: "metrics option \<Rightarrow> bool" where
  "numeric_pdr out = (case out of None \<Rightarrow> True | Some m \<Rightarrow> is_num (pdr m))"

section \<open>Concrete simulator outputs\<close>

definition healthy :: "string \<Rightarrow> exn + dataframe" where
  "healthy = artifacts (Num 1000) (Num 900) (Num 0.9) (Num 0.012) (Num 0)"

definition junk_pdr :: "string \<Rightarrow> exn + dataframe" where
  "junk_pdr = artifacts (Num 1000) (Num 900) (Str ''abc'') (Num 0.012) (Num 0)"

definition out_of_range :: "string \<Rightarrow> exn + dataframe" where
  "out_of_range = artifacts (Num 10) (Num 20) (Num 1.5) (Num 0.012) (Num 0)"

definition no_delay_file :: "string \<Rightarrow> exn + dataframe" where
  "no_delay_file p = (if p = delay_csv then Inl FileNotFoundError else healthy p)"

definition record_of :: "cell \<Rightarrow> cell \<Rightarrow> cell \<Rightarrow> cell \<Rightarrow> cell \<Rightarrow> metrics" where
  "record_of v_tx v_rx v_pdr v_delay_ms v_drop =
     \<lparr>pdr = v_pdr, tx = v_tx, rx = v_rx, delay_ms = v_delay_ms,
      ctrl_tx = Num 500, ctrl_rx = Num 400, ctrl_dropped = v_drop\<rparr>"

definition healthy_record :: metrics where
  "healthy_record = record_of (Num 1000) (Num 900) (Num 0.9) (Num 12) (Num 0)"

definition junk_record :: metrics where
  "junk_record = record_of (Num 1000) (Num 900) (Str ''abc'') (Num 12) (Num 0)"

definition all_healthy :: "nat env" where
  "all_healthy = scripted (\<lambda>n. 0) (\<lambda>n. healthy)"

text \<open>A simulator that reports more packets received than sent, and a ratio above 1.\<close>

definition out_of_range_env :: "nat env" where
  "out_of_range_env = scripted (\<lambda>n. 0) (\<lambda>n. out_of_range)"

definition out_of_range_record :: metrics where
  "out_of_range_record = record_of (Num 10) (Num 20) (Num 1.5) (Num 12) (Num 0)"

text \<open>A simulator whose first two runs exit with a nonzero code.\<close>

definition first_two_fail :: "nat env" where
  "first_two_fail = scripted (\<lambda>n. if n \<le> 2 then 1 else 0) (\<lambda>n. healthy)"




text \<open>
  A simulator for the example of the specification: the run without attack delivers
  everything, the attack lowers \<^verbatim>\<open>pdr\<close> to 0.75, the mitigation brings it to 0.91 and
  drops 340 control packets.
\<close>

definition example_files :: "nat \<Rightarrow> string \<Rightarrow> exn + dataframe" where
  "example_files n =
     (if n = 1 then artifacts (Num 1000) (Num 1000) (Num 1) (Num 0.01) (Num 0)
      else if n = 2 then artifacts (Num 1000) (Num 750) (Num 0.75) (Num 0.02) (Num 0)
      else artifacts (Num 1000) (Num 910) (Num 0.91) (Num 0.012) (Num 340))"

definition example_env :: "nat env" where
  "example_env = scripted (\<lambda>n. 0) example_files"

definition no_attack_record :: metrics where
  "no_attack_record = record_of (Num 1000) (Num 1000) (Num 1) (Num 10) (Num 0)"

definition attack_only_record :: metrics where
  "attack_only_record = record_of (Num 1000) (Num 750) (Num 0.75) (Num 20) (Num 0)"

definition mitigated_record :: metrics where
  "mitigated_record = record_of (Num 1000) (Num 910) (Num 0.91) (Num 12) (Num 340)"

definition example_baseline :: "labelled list" where
  "example_baseline =
     [with_scenario no_attack_record ''RPL'', with_scenario attack_only_record ''InsecRPL'',
      with_scenario mitigated_record ''SecRPL'']"

section \<open>Facts about run_simulation\<close>

lemma paths_distinct:
  "pdr_csv \<noteq> delay_csv" "pdr_csv \<noteq> overhead_csv" "delay_csv \<noteq> overhead_csv"
  "delay_csv \<noteq> pdr_csv" "overhead_csv \<noteq> pdr_csv" "overhead_csv \<noteq> delay_csv"
  by (simp_all add: pdr_csv_def delay_csv_def overhead_csv_def)

lemma run_simulation_runs:
  "runs (snd (run_simulation E a p t n w d s)) =
     runs s @ [(command_line a p t n w d, fst (run_simulation E a p t n w d s))]"
  by (simp add: run_simulation_def Let_def split: prod.splits)

lemma run_simulation_Some:
  assumes "run_simulation E a p t n w d s = (Some r, s')"
  shows "read_results E (world s') = Inr r"
    and "runs s' = runs s @ [(command_line a p t n w d, Some r)]"
  using assms
  by (auto simp: run_simulation_def Let_def split: prod.splits if_splits sum.splits)

lemma command_line_attack: "command_line True pps thr 25 1 120 = attack_invocation pps thr"
  by (simp add: command_line_def attack_invocation_def)

lemma command_line_no_attack: "command_line False pps thr 25 w 120 = no_attack_invocation"
  by (simp add: command_line_def no_attack_invocation_def)

lemma column_first_Inr:
  "column_first df c = Inr v \<Longrightarrow> map_of df c \<noteq> None \<and> map_of df c \<noteq> Some []"
  by (auto simp: column_first_def first_value_def split: option.splits list.splits)

lemma column_first_total:
  "map_of df c \<noteq> None \<Longrightarrow> map_of df c \<noteq> Some [] \<Longrightarrow> \<exists>v. column_first df c = Inr v"
  by (auto simp: column_first_def first_value_def split: option.splits list.splits)

lemma read_results_Inr:
  assumes "read_results E w = Inr r"
  shows "raw_value E w pdr_csv ''pdr'' = Inr (pdr r)"
    and "raw_value E w pdr_csv ''tx'' = Inr (tx r)"
    and "raw_value E w pdr_csv ''rx'' = Inr (rx r)"
    and "\<exists>raw. raw_value E w delay_csv ''avg_delay_s'' = Inr raw \<and> delay_ms r = times_1000 raw"
    and "raw_value E w overhead_csv ''control_tx'' = Inr (ctrl_tx r)"
    and "raw_value E w overhead_csv ''control_rx'' = Inr (ctrl_rx r)"
    and "raw_value E w overhead_csv ''control_dropped'' = Inr (ctrl_dropped r)"
  using assms
  by (auto simp: read_results_def raw_value_def bind_exn_def split: sum.splits)

lemma read_results_Inr_usable:
  assumes "read_results E w = Inr r"
  shows "\<not> unusable E w pdr_csv [''pdr'', ''tx'', ''rx'']"
    and "\<not> unusable E w delay_csv [''avg_delay_s'']"
    and "\<not> unusable E w overhead_csv [''control_tx'', ''control_rx'', ''control_dropped'']"
  using assms
  by (auto simp: read_results_def unusable_def bind_exn_def
           dest!: column_first_Inr split: sum.splits)

lemma usable_read_results:
  assumes "\<not> unusable E w pdr_csv [''pdr'', ''tx'', ''rx'']"
    and "\<not> unusable E w delay_csv [''avg_delay_s'']"
    and "\<not> unusable E w overhead_csv [''control_tx'', ''control_rx'', ''control_dropped'']"
  shows "\<exists>r. read_results E w = Inr r"
proof -
  from assms(1) obtain pdr_df where p: "read_csv E pdr_csv w = Inr pdr_df"
    and "map_of pdr_df ''pdr'' \<noteq> None" "map_of pdr_df ''pdr'' \<noteq> Some []"
    and "map_of pdr_df ''tx'' \<noteq> None" "map_of pdr_df ''tx'' \<noteq> Some []"
    and "map_of pdr_df ''rx'' \<noteq> None" "map_of pdr_df ''rx'' \<noteq> Some []"
    by (auto simp: unusable_def split: sum.splits)
  then obtain v1 v2 v3 where c1: "column_first pdr_df ''pdr'' = Inr v1"
    and c2: "column_first pdr_df ''tx'' = Inr v2" and c3: "column_first pdr_df ''rx'' = Inr v3"
    using column_first_total by metis
  from assms(2) obtain delay_df where d: "read_csv E delay_csv w = Inr delay_df"
    and "map_of delay_df ''avg_delay_s'' \<noteq> None" "map_of delay_df ''avg_delay_s'' \<noteq> Some []"
    by (auto simp: unusable_def split: sum.splits)
  then obtain v4 where c4: "column_first delay_df ''avg_delay_s'' = Inr v4"
    using column_first_total by metis
  from assms(3) obtain ov_df where ov: "read_csv E overhead_csv w = Inr ov_df"
    and "map_of ov_df ''control_tx'' \<noteq> None" "map_of ov_df ''control_tx'' \<noteq> Some []"
    and "map_of ov_df ''control_rx'' \<noteq> None" "map_of ov_df ''control_rx'' \<noteq> Some []"
    and "map_of ov_df ''control_dropped'' \<noteq> None" "map_of ov_df ''control_dropped'' \<noteq> Some []"
    by (auto simp: unusable_def split: sum.splits)
  then obtain v5 v6 v7 where c5: "column_first ov_df ''control_tx'' = Inr v5"
    and c6: "column_first ov_df ''control_rx'' = Inr v6"
    and c7: "column_first ov_df ''control_dropped'' = Inr v7"
    using column_first_total by metis
  show ?thesis
    by (simp add: read_results_def bind_exn_def p d ov c1 c2 c3 c4 c5 c6 c7)
qed

lemma read_results_fails:
  "isl (read_results E w) =
     (unusable E w pdr_csv [''pdr'', ''tx'', ''rx'']
      \<or> unusable E w delay_csv [''avg_delay_s'']
      \<or> unusable E w overhead_csv [''control_tx'', ''control_rx'', ''control_dropped''])"
proof (cases "read_results E w")
  case (Inl e)
  then show ?thesis using usable_read_results [of E w] by auto
next
  case (Inr r)
  then show ?thesis using read_results_Inr_usable [of E w r] by simp
qed

subsection \<open>The scripted simulator\<close>

lemma scripted_sel:
  "subprocess_run (scripted code files) c n = (code (Suc n), Suc n)"
  "read_csv (scripted code files) p n = files n p"
  "int_of_str (scripted code files) t = None"
  by (simp_all add: scripted_def)

lemma read_results_artifacts:
  assumes "\<And>p. read_csv E p w = artifacts v_tx v_rx v_pdr v_delay v_drop p"
  shows "read_results E w = Inr (record_of v_tx v_rx v_pdr (times_1000 v_delay) v_drop)"
  by (simp add: read_results_def assms artifacts_def paths_distinct bind_exn_def
      column_first_def first_value_def record_of_def)

lemma raw_value_artifacts:
  assumes "\<And>p. read_csv E p w = artifacts v_tx v_rx v_pdr v_delay v_drop p"
  shows "raw_value E w pdr_csv ''pdr'' = Inr v_pdr"
    and "raw_value E w pdr_csv ''tx'' = Inr v_tx"
    and "raw_value E w pdr_csv ''rx'' = Inr v_rx"
    and "raw_value E w delay_csv ''avg_delay_s'' = Inr v_delay"
    and "raw_value E w overhead_csv ''control_tx'' = Inr (Num 500)"
    and "raw_value E w overhead_csv ''control_rx'' = Inr (Num 400)"
    and "raw_value E w overhead_csv ''control_dropped'' = Inr v_drop"
  by (simp_all add: raw_value_def assms artifacts_def paths_distinct bind_exn_def
      column_first_def first_value_def)

lemma run_simulation_scripted:
  "run_simulation (scripted code files) a p t nn w d s =
     (let result = (if code (Suc (world s)) \<noteq> 0 then None
                    else case read_results (scripted code files) (Suc (world s)) of
                           Inl e \<Rightarrow> None | Inr r \<Rightarrow> Some r)
      in (result, \<lparr>world = Suc (world s), runs = runs s @ [(command_line a p t nn w d, result)]\<rparr>))"
  by (simp add: run_simulation_def scripted_sel Let_def)


section \<open>Facts about the three experiments\<close>

text \<open>
  Each experiment adds its runs to the history in a fixed order, and its dataset holds
  the records of the runs that returned one. The progress print of \<^verbatim>\<open>pdr\<close> ends the
  baseline experiment and the threshold sweep with \<^verbatim>\<open>ValueError\<close> at the first record
  whose \<^verbatim>\<open>pdr\<close> is not a number.
\<close>

lemma format_f_cases:
  "format_f v = Inr u \<longleftrightarrow> is_num v"
  "format_f v = Inl e \<longleftrightarrow> (\<not> is_num v \<and> e = ValueError)"
  by (auto simp: format_f_def is_num_def split: cell.splits)

lemma threshold_loop_runs:
  "threshold_loop E ts acc s = (res, s') \<Longrightarrow>
     \<exists>outs. length outs \<le> length ts
       \<and> runs s' = runs s @ zip (map (attack_invocation 800) ts) outs
       \<and> (case res of
            Inr rows \<Rightarrow> length outs = length ts \<and> rows = acc @ threshold_rows ts outs
          | Inl e \<Rightarrow> e = ValueError \<and> outs \<noteq> [] \<and> \<not> numeric_pdr (last outs))"
proof (induction ts arbitrary: acc s res s')
  case Nil
  then show ?case by auto
next
  case (Cons t ts)
  obtain result s1 where run: "run_simulation E True 800 t 25 1 120 s = (result, s1)"
    by (cases "run_simulation E True 800 t 25 1 120 s")
  have log: "runs s1 = runs s @ [(attack_invocation 800 t, result)]"
    using run_simulation_runs [of E True 800 t 25 1 120 s] run
    by (simp add: command_line_attack)
  show ?case
  proof (cases result)
    case None
    with Cons.prems run have "threshold_loop E ts acc s1 = (res, s')" by simp
    from Cons.IH [OF this] obtain outs where o: "length outs \<le> length ts"
      "runs s' = runs s1 @ zip (map (attack_invocation 800) ts) outs"
      "(case res of
            Inr rows \<Rightarrow> length outs = length ts \<and> rows = acc @ threshold_rows ts outs
          | Inl e \<Rightarrow> e = ValueError \<and> outs \<noteq> [] \<and> \<not> numeric_pdr (last outs))"
      by blast
    show ?thesis
      by (rule exI [of _ "None # outs"]) (use o log None in \<open>auto split: sum.splits\<close>)
  next
    case (Some m)
    show ?thesis
    proof (cases "is_num (pdr m)")
      case False
      then have "format_f (pdr m) = Inl ValueError" by (simp add: format_f_cases)
      with Cons.prems run Some have "res = Inl ValueError" "s' = s1" by auto
      then show ?thesis
        by (intro exI [of _ "[Some m]"]) (use log Some False in \<open>simp add: numeric_pdr_def\<close>)
    next
      case True
      then have "format_f (pdr m) = Inr ()" by (simp add: format_f_cases)
      with Cons.prems run Some
      have "threshold_loop E ts (acc @ [with_threshold m ''SecRPL'' t]) s1 = (res, s')" by simp
      from Cons.IH [OF this] obtain outs where o: "length outs \<le> length ts"
        "runs s' = runs s1 @ zip (map (attack_invocation 800) ts) outs"
        "(case res of
            Inr rows \<Rightarrow> length outs = length ts
               \<and> rows = (acc @ [with_threshold m ''SecRPL'' t]) @ threshold_rows ts outs
          | Inl e \<Rightarrow> e = ValueError \<and> outs \<noteq> [] \<and> \<not> numeric_pdr (last outs))"
        by blast
      show ?thesis
        by (rule exI [of _ "Some m # outs"]) (use o log Some in \<open>auto split: sum.splits\<close>)
    qed
  qed
qed


lemma append_labelled_cases:
  "append_labelled sc out l =
     (if numeric_pdr out then Inr (sc @ contributed out l) else Inl ValueError)"
  by (auto simp: append_labelled_def numeric_pdr_def contributed_def bind_exn_def
      format_f_def is_num_def split: option.splits cell.splits)

lemma collect_baseline_data_runs:
  assumes "collect_baseline_data E s = (res, s')"
  shows "\<exists>outs. length outs \<le> 3
       \<and> runs s' = runs s @ zip [no_attack_invocation, attack_invocation 800 1000000000,
                                  attack_invocation 800 20] outs
       \<and> (case res of
            Inr rows \<Rightarrow> \<exists>o1 o2 o3. outs = [o1, o2, o3]
               \<and> rows = contributed o1 ''RPL'' @ contributed o2 ''InsecRPL'' @ contributed o3 ''SecRPL''
               \<and> numeric_pdr o1 \<and> numeric_pdr o2 \<and> numeric_pdr o3
          | Inl e \<Rightarrow> e = ValueError \<and> outs \<noteq> [] \<and> \<not> numeric_pdr (last outs))"
proof -
  obtain o1 s1 where r1: "run_simulation E False 800 20 25 1 120 s = (o1, s1)"
    by (cases "run_simulation E False 800 20 25 1 120 s")
  obtain o2 s2 where r2: "run_simulation E True 800 1000000000 25 1 120 s1 = (o2, s2)"
    by (cases "run_simulation E True 800 1000000000 25 1 120 s1")
  obtain o3 s3 where r3: "run_simulation E True 800 20 25 1 120 s2 = (o3, s3)"
    by (cases "run_simulation E True 800 20 25 1 120 s2")
  have l1: "runs s1 = runs s @ [(no_attack_invocation, o1)]"
    using run_simulation_runs [of E False 800 20 25 1 120 s] r1
    by (simp add: command_line_no_attack)
  have l2: "runs s2 = runs s1 @ [(attack_invocation 800 1000000000, o2)]"
    using run_simulation_runs [of E True 800 1000000000 25 1 120 s1] r2
    by (simp add: command_line_attack)
  have l3: "runs s3 = runs s2 @ [(attack_invocation 800 20, o3)]"
    using run_simulation_runs [of E True 800 20 25 1 120 s2] r3
    by (simp add: command_line_attack)
  show ?thesis
  proof (cases "numeric_pdr o1")
    case False
    with assms r1 have "res = Inl ValueError" "s' = s1"
      by (auto simp: collect_baseline_data_def append_labelled_cases)
    then show ?thesis
      by (intro exI [of _ "[o1]"]) (use l1 False in simp)
  next
    case n1: True
    show ?thesis
    proof (cases "numeric_pdr o2")
      case False
      with assms r1 r2 n1 have "res = Inl ValueError" "s' = s2"
        by (auto simp: collect_baseline_data_def append_labelled_cases)
      then show ?thesis
        by (intro exI [of _ "[o1, o2]"]) (use l1 l2 False in simp)
    next
      case n2: True
      show ?thesis
      proof (cases "numeric_pdr o3")
        case False
        with assms r1 r2 r3 n1 n2 have "res = Inl ValueError" "s' = s3"
          by (auto simp: collect_baseline_data_def append_labelled_cases)
        then show ?thesis
          by (intro exI [of _ "[o1, o2, o3]"]) (use l1 l2 l3 False in simp)
      next
        case n3: True
        with assms r1 r2 r3 n1 n2
        have "res = Inr (contributed o1 ''RPL'' @ contributed o2 ''InsecRPL'' @ contributed o3 ''SecRPL'')"
          "s' = s3"
          by (auto simp: collect_baseline_data_def append_labelled_cases)
        then show ?thesis
          by (intro exI [of _ "[o1, o2, o3]"]) (use l1 l2 l3 n1 n2 n3 in simp)
      qed
    qed
  qed
qed

lemma frequency_loop_runs:
  "frequency_loop E ps acc s = (rows, s') \<Longrightarrow>
     \<exists>outs. length outs = 2 * length ps
       \<and> runs s' = runs s @ zip (frequency_invocations ps) outs
       \<and> rows = acc @ frequency_rows ps outs"
proof (induction ps arbitrary: acc s rows s')
  case Nil
  then show ?case by (simp add: frequency_invocations_def)
next
  case (Cons pps ps)
  obtain o1 s1 where r1: "run_simulation E True pps 1000000000 25 1 120 s = (o1, s1)"
    by (cases "run_simulation E True pps 1000000000 25 1 120 s")
  obtain o2 s2 where r2: "run_simulation E True pps 20 25 1 120 s1 = (o2, s2)"
    by (cases "run_simulation E True pps 20 25 1 120 s1")
  have l1: "runs s1 = runs s @ [(attack_invocation pps 1000000000, o1)]"
    using run_simulation_runs [of E True pps 1000000000 25 1 120 s] r1
    by (simp add: command_line_attack)
  have l2: "runs s2 = runs s1 @ [(attack_invocation pps 20, o2)]"
    using run_simulation_runs [of E True pps 20 25 1 120 s1] r2
    by (simp add: command_line_attack)
  define acc2 where "acc2 = acc
      @ (case o1 of None \<Rightarrow> [] | Some m \<Rightarrow> [with_attack_pps m ''InsecRPL'' pps])
      @ (case o2 of None \<Rightarrow> [] | Some m \<Rightarrow> [with_attack_pps m ''SecRPL'' pps])"
  from Cons.prems r1 r2 have "frequency_loop E ps acc2 s2 = (rows, s')"
    by (cases o1; cases o2) (simp_all add: acc2_def Let_def)
  from Cons.IH [OF this] obtain outs where o: "length outs = 2 * length ps"
    "runs s' = runs s2 @ zip (frequency_invocations ps) outs"
    "rows = acc2 @ frequency_rows ps outs"
    by blast
  show ?case
    by (rule exI [of _ "o1 # o2 # outs"])
       (use o l1 l2 in \<open>simp add: acc2_def frequency_invocations_def\<close>)
qed

lemma collect_attack_frequency_data_runs:
  assumes "collect_attack_frequency_data E s = (rows, s')"
  shows "\<exists>outs lst. length outs = 10
       \<and> runs s' = runs s @ zip (frequency_invocations frequencies) outs @ [(no_attack_invocation, lst)]
       \<and> rows = frequency_rows frequencies outs
              @ (case lst of None \<Rightarrow> []
                 | Some m \<Rightarrow> map (\<lambda>pps. with_attack_pps m ''RPL'' pps) frequencies)"
proof -
  obtain all_data s1 where lp: "frequency_loop E frequencies [] s = (all_data, s1)"
    by (cases "frequency_loop E frequencies [] s")
  obtain lst s2 where r: "run_simulation E False 800 20 25 1 120 s1 = (lst, s2)"
    by (cases "run_simulation E False 800 20 25 1 120 s1")
  have l: "runs s2 = runs s1 @ [(no_attack_invocation, lst)]"
    using run_simulation_runs [of E False 800 20 25 1 120 s1] r
    by (simp add: command_line_no_attack)
  from frequency_loop_runs [OF lp] obtain outs where o: "length outs = 2 * length frequencies"
    "runs s1 = runs s @ zip (frequency_invocations frequencies) outs"
    "all_data = [] @ frequency_rows frequencies outs"
    by blast
  from assms lp r have "s' = s2"
    "rows = (case lst of None \<Rightarrow> all_data
             | Some m \<Rightarrow> all_data @ map (\<lambda>pps. with_attack_pps m ''RPL'' pps) frequencies)"
    by (auto simp: collect_attack_frequency_data_def)
  then show ?thesis
    by (intro exI [of _ outs] exI [of _ lst])
       (use o l in \<open>auto simp: frequencies_def split: option.splits\<close>)
qed


lemma read_healthy:
  "files n = healthy \<Longrightarrow> read_results (scripted code files) n = Inr healthy_record"
  by (simp add: read_results_artifacts [where v_delay = "Num 0.012"] scripted_sel healthy_def
      healthy_record_def times_1000_def)


lemma pdr_fixture: "pdr healthy_record = Num 0.9" "pdr junk_record = Str ''abc''"
  by (simp_all add: healthy_record_def junk_record_def record_of_def)




lemma read_example:
  "read_results example_env (Suc 0) = Inr no_attack_record"
  "read_results example_env (Suc (Suc 0)) = Inr attack_only_record"
  "read_results example_env (Suc (Suc (Suc 0))) = Inr mitigated_record"
  by (simp_all add: example_env_def example_files_def scripted_sel times_1000_def
      no_attack_record_def attack_only_record_def mitigated_record_def
      read_results_artifacts [where v_delay = "Num 0.01"]
      read_results_artifacts [where v_delay = "Num 0.02"]
      read_results_artifacts [where v_delay = "Num 0.012"])

lemma pdr_example:
  "pdr no_attack_record = Num 1" "pdr attack_only_record = Num 0.75"
  "pdr mitigated_record = Num 0.91" "ctrl_dropped mitigated_record = Num 340"
  by (simp_all add: no_attack_record_def attack_only_record_def mitigated_record_def record_of_def)

lemma baseline_example:
  "collect_baseline_data example_env start =
     (Inr example_baseline,
      \<lparr>world = 3,
       runs = [(no_attack_invocation, Some no_attack_record),
               (attack_invocation 800 1000000000, Some attack_only_record),
               (attack_invocation 800 20, Some mitigated_record)]\<rparr>)"
  by (simp add: collect_baseline_data_def append_labelled_cases numeric_pdr_def is_num_def
      contributed_def example_baseline_def start_def command_line_attack command_line_no_attack
      run_simulation_scripted [of "\<lambda>n. 0" example_files, folded example_env_def]
      Let_def read_example pdr_example)


lemma summary_of_contributed:
  assumes "baseline_df = contributed o1 ''RPL'' @ contributed o2 ''InsecRPL'' @ contributed o3 ''SecRPL''"
    and "numeric_pdr o1" "numeric_pdr o2" "numeric_pdr o3"
    and "print_summary_table E baseline_df freq_df thresh_df = (out, err)"
  shows "(\<exists>x. Improvement x \<in> set out) = (o2 \<noteq> None \<and> o3 \<noteq> None)"
    and "(\<exists>y. Attack_impact y \<in> set out) = (o2 \<noteq> None \<and> o3 \<noteq> None)"
    and "\<not> (o2 \<noteq> None \<and> o3 \<noteq> None) \<Longrightarrow> err = None"
    and "o2 = Some a \<Longrightarrow> o3 = Some m \<Longrightarrow>
          \<exists>p q. pdr a = Num p \<and> pdr m = Num q \<and> Attack_impact ((1 - p) * 100) \<in> set out
             \<and> (p \<noteq> 0 \<longrightarrow> Improvement (Fin ((q - p) / p * 100)) \<in> set out)"
  using assms
  by (cases o1; cases o2; cases o3;
      auto simp: print_summary_table_def contributed_def with_scenario_def numeric_pdr_def
        is_num_def np_div_def np_times_def Let_def
        split: cell.splits sum.splits if_splits)+

lemma contributed_scenarios:
  assumes "baseline_df = contributed o1 ''RPL'' @ contributed o2 ''InsecRPL'' @ contributed o3 ''SecRPL''"
  shows "(''InsecRPL'' \<in> set (map scenario baseline_df)) = (o2 \<noteq> None)"
    and "(''SecRPL'' \<in> set (map scenario baseline_df)) = (o3 \<noteq> None)"
    and "r \<in> set baseline_df \<Longrightarrow> scenario r = ''InsecRPL'' \<Longrightarrow>
           \<exists>a. o2 = Some a \<and> r = with_scenario a ''InsecRPL''"
    and "r \<in> set baseline_df \<Longrightarrow> scenario r = ''SecRPL'' \<Longrightarrow>
           \<exists>m. o3 = Some m \<and> r = with_scenario m ''SecRPL''"
  using assms
  by (cases o1; cases o2; cases o3; auto simp: contributed_def with_scenario_def)+

lemma summary_example:
  "print_summary_table example_env example_baseline [] [] =
     ([Banner, Baseline_table example_baseline, Key_findings, Improvement (Fin (64 / 3)),
       Attack_impact 25, Blocked 340], None)"
  by (simp add: print_summary_table_def example_baseline_def with_scenario_def pdr_example
      np_div_def np_times_def py_int_def Let_def)




lemma run_all_healthy:
  "run_simulation all_healthy a p t n w d s =
     (Some healthy_record,
      \<lparr>world = Suc (world s), runs = runs s @ [(command_line a p t n w d, Some healthy_record)]\<rparr>)"
  by (simp add: all_healthy_def run_simulation_scripted Let_def read_healthy)

lemma frequency_sweep_all_healthy:
  "collect_attack_frequency_data all_healthy start =
     (concat (map (\<lambda>pps. [with_attack_pps healthy_record ''InsecRPL'' pps,
                           with_attack_pps healthy_record ''SecRPL'' pps]) [200, 400, 600, 800, 1000])
      @ map (\<lambda>pps. with_attack_pps healthy_record ''RPL'' pps) [200, 400, 600, 800, 1000],
      \<lparr>world = 11,
       runs = map (\<lambda>c. (c, Some healthy_record))
                (frequency_invocations [200, 400, 600, 800, 1000] @ [no_attack_invocation])\<rparr>)"
  by (simp add: collect_attack_frequency_data_def frequencies_def run_all_healthy start_def
      command_line_attack command_line_no_attack frequency_invocations_def)

lemma frequency_rows_attack_only:
  "r \<in> set (frequency_rows ps outs) \<Longrightarrow> scenario r = ''InsecRPL'' \<Longrightarrow>
     \<exists>m. (attack_invocation (attack_pps r) 1000000000, Some m)
            \<in> set (zip (frequency_invocations ps) outs)
        \<and> r = with_attack_pps m ''InsecRPL'' (attack_pps r)"
proof (induction ps outs rule: frequency_rows.induct)
  case (1 pps rest out1 out2 outs)
  from "1.prems"(1) consider
    (a) m where "out1 = Some m" "r = with_attack_pps m ''InsecRPL'' pps"
    | (b) m where "out2 = Some m" "r = with_attack_pps m ''SecRPL'' pps"
    | (c) "r \<in> set (frequency_rows rest outs)"
    by (auto split: option.splits)
  then show ?case
  proof cases
    case a
    then show ?thesis
      by (auto simp: frequency_invocations_def with_attack_pps_def)
  next
    case b
    with "1.prems"(2) show ?thesis by (simp add: with_attack_pps_def)
  next
    case c
    from "1.IH" [OF c "1.prems"(2)] show ?thesis
      by (auto simp: frequency_invocations_def)
  qed
qed simp_all

lemma run_in_range:
  assumes "\<forall>c w rc w'. subprocess_run E c w = (rc, w') \<longrightarrow> artifacts_invariant E w'"
    and "run_simulation E a p t n w d s = (Some m, s')"
  shows "record_invariant m"
proof -
  from assms(2) have r: "read_results E (world s') = Inr m" by (rule run_simulation_Some)
  from assms(2) have "\<exists>rc. subprocess_run E (command_line a p t n w d) (world s) = (rc, world s')"
    by (auto simp: run_simulation_def Let_def split: prod.splits)
  with assms(1) have "artifacts_invariant E (world s')" by blast
  then show ?thesis
    by (simp add: artifacts_invariant_def record_invariant_def read_results_Inr [OF r])
qed

lemma in_range_rows:
  "record_invariant m \<Longrightarrow> record_invariant (with_scenario m l)"
  "record_invariant m \<Longrightarrow> record_invariant (with_attack_pps m l pps)"
  "record_invariant m \<Longrightarrow> record_invariant (with_threshold m l thr)"
  by (simp_all add: record_invariant_def with_scenario_def with_attack_pps_def with_threshold_def)

lemma threshold_loop_in_range:
  assumes "\<forall>c w rc w'. subprocess_run E c w = (rc, w') \<longrightarrow> artifacts_invariant E w'"
  shows "threshold_loop E ts acc s = (Inr rows, s') \<Longrightarrow> list_all record_invariant acc \<Longrightarrow>
           list_all record_invariant rows"
proof (induction ts arbitrary: acc s)
  case Nil
  then show ?case by simp
next
  case (Cons t ts)
  obtain out s1 where run: "run_simulation E True 800 t 25 1 120 s = (out, s1)"
    by (cases "run_simulation E True 800 t 25 1 120 s")
  show ?case
  proof (cases out)
    case None
    with Cons.prems run have "threshold_loop E ts acc s1 = (Inr rows, s')" by simp
    from Cons.IH [OF this Cons.prems(2)] show ?thesis .
  next
    case (Some m)
    with run have ok: "record_invariant m" using run_in_range [OF assms] by blast
    from Cons.prems(1) run Some
    have "threshold_loop E ts (acc @ [with_threshold m ''SecRPL'' t]) s1 = (Inr rows, s')"
      by (auto split: sum.splits)
    from Cons.IH [OF this] ok Cons.prems(2) show ?thesis
      by (simp add: in_range_rows)
  qed
qed

lemma frequency_loop_in_range:
  assumes "\<forall>c w rc w'. subprocess_run E c w = (rc, w') \<longrightarrow> artifacts_invariant E w'"
  shows "frequency_loop E ps acc s = (rows, s') \<Longrightarrow> list_all record_invariant acc \<Longrightarrow>
           list_all record_invariant rows"
proof (induction ps arbitrary: acc s)
  case Nil
  then show ?case by simp
next
  case (Cons pps ps)
  obtain o1 s1 where r1: "run_simulation E True pps 1000000000 25 1 120 s = (o1, s1)"
    by (cases "run_simulation E True pps 1000000000 25 1 120 s")
  obtain o2 s2 where r2: "run_simulation E True pps 20 25 1 120 s1 = (o2, s2)"
    by (cases "run_simulation E True pps 20 25 1 120 s1")
  define acc2 where "acc2 = acc
      @ (case o1 of None \<Rightarrow> [] | Some m \<Rightarrow> [with_attack_pps m ''InsecRPL'' pps])
      @ (case o2 of None \<Rightarrow> [] | Some m \<Rightarrow> [with_attack_pps m ''SecRPL'' pps])"
  from Cons.prems(1) r1 r2 have loop: "frequency_loop E ps acc2 s2 = (rows, s')"
    by (cases o1; cases o2) (simp_all add: acc2_def Let_def)
  have "list_all record_invariant acc2"
    using Cons.prems(2) run_in_range [OF assms] r1 r2
    by (cases o1; cases o2) (auto simp: acc2_def in_range_rows)
  from Cons.IH [OF loop this] show ?case .
qed

lemma threshold_sweep_all_healthy:
  "collect_threshold_data all_healthy start =
     (Inr (map (\<lambda>t. with_threshold healthy_record ''SecRPL'' t) [5, 10, 20, 30, 50]),
      \<lparr>world = 5,
       runs = map (\<lambda>t. (attack_invocation 800 t, Some healthy_record)) [5, 10, 20, 30, 50]\<rparr>)"
  by (simp add: collect_threshold_data_def thresholds_def run_all_healthy start_def
      command_line_attack pdr_fixture format_f_def)

lemma baseline_all_healthy:
  "collect_baseline_data all_healthy start =
     (Inr [with_scenario healthy_record ''RPL'', with_scenario healthy_record ''InsecRPL'',
           with_scenario healthy_record ''SecRPL''],
      \<lparr>world = 3,
       runs = [(no_attack_invocation, Some healthy_record),
               (attack_invocation 800 1000000000, Some healthy_record),
               (attack_invocation 800 20, Some healthy_record)]\<rparr>)"
  by (simp add: collect_baseline_data_def append_labelled_cases numeric_pdr_def is_num_def
      contributed_def run_all_healthy start_def command_line_attack command_line_no_attack
      pdr_fixture)

lemma all_healthy_in_range: "artifacts_invariant all_healthy n"
  by (simp add: artifacts_invariant_def all_healthy_def in_range_def scripted_sel healthy_def
      raw_value_artifacts [where v_delay = "Num 0.012"])

lemma run_out_of_range:
  "run_simulation out_of_range_env a p t n w d s =
     (Some out_of_range_record,
      \<lparr>world = Suc (world s),
       runs = runs s @ [(command_line a p t n w d, Some out_of_range_record)]\<rparr>)"
  by (simp add: out_of_range_env_def run_simulation_scripted Let_def scripted_sel
      read_results_artifacts [where v_delay = "Num 0.012"] out_of_range_def
      out_of_range_record_def times_1000_def)

lemma runs_start: "runs start = []"
  by (simp add: start_def)

subsection \<open>Charts\<close>

text \<open>
  An empty dataset skips its charts, and a scenario without rows in the frequency dataset
  gets no series. The baseline lines of graph 4 are different: they are guarded by
  \<^verbatim>\<open>if not baseline_df.empty\<close> only, so a baseline dataset that has rows but none
  labelled \<^verbatim>\<open>RPL\<close>, or none labelled \<^verbatim>\<open>InsecRPL\<close>, makes \<^verbatim>\<open>.values[0]\<close> raise.
\<close>

lemma empty_datasets_are_skipped:
  "create_research_style_graphs E [] [] [] = ([], None)"
  by (simp add: create_research_style_graphs_def graph1_def graph2_def graph3_def graph4_def
      graph5_def graph6_def frequency_graph_def saved_def)

lemma absent_label_has_no_series:
  "sc \<notin> scenario ` set freq_df \<Longrightarrow> frequency_series column freq_df sc = []"
proof -
  assume "sc \<notin> scenario ` set freq_df"
  then have "filter (\<lambda>r. scenario r = sc) freq_df = []"
    by (auto simp: filter_empty_conv)
  then show ?thesis by (simp add: frequency_series_def)
qed

lemma graph4_raises:
  assumes "thresh_df \<noteq> []" and "baseline_df \<noteq> []"
    and "''RPL'' \<notin> scenario ` set baseline_df \<or> ''InsecRPL'' \<notin> scenario ` set baseline_df"
  shows "graph4 baseline_df thresh_df = Inl IndexError"
proof -
  have none: "first_value (map pdr (filter (\<lambda>r. scenario r = l) baseline_df)) = Inl IndexError"
    if "l \<notin> scenario ` set baseline_df" for l
  proof -
    from that have "filter (\<lambda>r. scenario r = l) baseline_df = []"
      by (auto simp: filter_empty_conv)
    then show ?thesis by (simp add: first_value_def)
  qed
  show ?thesis
  proof (cases "''RPL'' \<in> scenario ` set baseline_df")
    case False
    with assms(1,2) show ?thesis by (simp add: graph4_def bind_exn_def none)
  next
    case True
    with assms(3) have "''InsecRPL'' \<notin> scenario ` set baseline_df" by simp
    then have insec: "first_value (map pdr (filter (\<lambda>r. scenario r = ''InsecRPL'') baseline_df))
        = Inl IndexError"
      by (rule none)
    show ?thesis
    proof (cases "first_value (map pdr (filter (\<lambda>r. scenario r = ''RPL'') baseline_df))")
      case (Inl e)
      then have "e = IndexError" by (auto simp: first_value_def split: list.splits)
      with Inl assms(1,2) show ?thesis by (simp add: graph4_def bind_exn_def)
    next
      case (Inr v)
      with insec assms(1,2) show ?thesis by (simp add: graph4_def bind_exn_def)
    qed
  qed
qed

lemma baseline_first_two_fail:
  "collect_baseline_data first_two_fail start =
     (Inr [with_scenario healthy_record ''SecRPL''],
      \<lparr>world = 3,
       runs = [(no_attack_invocation, None), (attack_invocation 800 1000000000, None),
               (attack_invocation 800 20, Some healthy_record)]\<rparr>)"
  by (simp add: collect_baseline_data_def append_labelled_cases numeric_pdr_def is_num_def
      contributed_def first_two_fail_def run_simulation_scripted Let_def read_healthy start_def
      command_line_attack command_line_no_attack pdr_fixture)

section \<open>The invocation without attack\<close>

text \<open>
  Claim C5. When \<^verbatim>\<open>attack\<close> is false, the command line handed to the simulator holds
  exactly \<^verbatim>\<open>--attack=false\<close>, the node count, the area, the traffic rate and the
  simulation duration. None of the flags for attacker rate, attacker packet count,
  mitigation threshold and detection window occurs in it, and the whole run is the same
  whatever values those parameters have.
\<close>

theorem no_attack_forwards_no_attack_parameter:
  "\<exists>c out. runs (snd (run_simulation E False attacker_pps thresh n_nodes window sim_time s))
              = runs s @ [(c, out)]
         \<and> c = [(''attack'', ArgBool False), (''nNodes'', ArgInt n_nodes), (''area'', ArgInt 60),
                (''rateKbps'', ArgInt 16), (''simTime'', ArgInt sim_time)]
         \<and> set (map fst c) \<inter> set attack_only_flags = {}
         \<and> run_simulation E False attacker_pps thresh n_nodes window sim_time s
             = run_simulation E False pps' thresh' n_nodes window' sim_time s"
  by (simp add: run_simulation_def Let_def command_line_def attack_only_flags_def split: prod.splits)

section \<open>The delay in milliseconds\<close>



section \<open>When the parse step fails\<close>

text \<open>
  Claim C7, as the script has it. After a run that exits with code 0, the parse step
  yields no record exactly when one of the three files cannot be read (it is missing, or
  empty), or lacks one of the columns the script reads, or has no row. Every such case is
  reported in the same way, by \<^verbatim>\<open>None\<close>. Whether a value is a number plays no part.
\<close>

theorem parse_fails_iff_artifact_unusable:
  assumes "subprocess_run E (command_line attack attacker_pps thresh n_nodes window sim_time) (world s) = (0, w)"
  shows "(fst (run_simulation E attack attacker_pps thresh n_nodes window sim_time s) = None) =
           (unusable E w pdr_csv [''pdr'', ''tx'', ''rx'']
            \<or> unusable E w delay_csv [''avg_delay_s'']
            \<or> unusable E w overhead_csv [''control_tx'', ''control_rx'', ''control_dropped''])"
proof -
  have "(fst (run_simulation E attack attacker_pps thresh n_nodes window sim_time s) = None)
          = isl (read_results E w)"
    using assms by (simp add: run_simulation_def Let_def split: sum.splits)
  then show ?thesis by (simp add: read_results_fails)
qed

theorem parse_fails_iff_artifact_unusable_witness:
  "subprocess_run (scripted (\<lambda>n. 0) (\<lambda>n. no_delay_file)) (command_line True 800 20 25 1 120)
      (world start) = (0, 1)
   \<and> unusable (scripted (\<lambda>n. 0) (\<lambda>n. no_delay_file)) 1 delay_csv [''avg_delay_s'']
   \<and> fst (run_simulation (scripted (\<lambda>n. 0) (\<lambda>n. no_delay_file)) True 800 20 25 1 120 start) = None"
proof -
  have run: "subprocess_run (scripted (\<lambda>n. 0) (\<lambda>n. no_delay_file)) (command_line True 800 20 25 1 120)
      (world start) = (0, 1)"
    by (simp add: scripted_sel start_def)
  have missing: "unusable (scripted (\<lambda>n. 0) (\<lambda>n. no_delay_file)) 1 delay_csv [''avg_delay_s'']"
    by (simp add: unusable_def scripted_sel no_delay_file_def)
  show ?thesis
    using run missing parse_fails_iff_artifact_unusable [OF run] by simp
qed

text \<open>
  The claim as stated fails: a pdr file whose \<^verbatim>\<open>pdr\<close> value is the text \<^verbatim>\<open>abc\<close> is
  parsed, and the text is stored in the record.
\<close>

theorem junk_pdr_is_parsed:
  "raw_value (scripted (\<lambda>n. 0) (\<lambda>n. junk_pdr)) 1 pdr_csv ''pdr'' = Inr (Str ''abc'')
   \<and> fst (run_simulation (scripted (\<lambda>n. 0) (\<lambda>n. junk_pdr)) True 800 20 25 1 120 start)
       = Some (record_of (Num 1000) (Num 900) (Str ''abc'') (Num 12) (Num 0))"
  by (simp add: run_simulation_scripted Let_def start_def
      read_results_artifacts [where v_delay = "Num 0.012"]
      raw_value_artifacts [where v_delay = "Num 0.012"] scripted_sel junk_pdr_def times_1000_def)

section \<open>The threshold sweep with one failed run\<close>




section \<open>The baseline experiment\<close>




section \<open>The summary\<close>

text \<open>
  Claim C3. For the dataset of a baseline experiment, the findings (improvement and
  attack impact) are printed exactly when the dataset has a row labelled \<^verbatim>\<open>InsecRPL\<close>
  and a row labelled \<^verbatim>\<open>SecRPL\<close>; otherwise nothing is computed and no exception is
  raised. When they are printed, the attack impact is \<open>(1 - p) * 100\<close> and, for
  \<open>p \<noteq> 0\<close>, the improvement is \<open>(q - p) / p * 100\<close>, where \<open>p\<close> and \<open>q\<close> are the
  \<^verbatim>\<open>pdr\<close> of the attack-only and of the mitigated row; nothing clamps either value. For
  \<open>p = 0.75\<close> and \<open>q = 0.91\<close> the improvement is within 0.005 of 21.33 and the attack
  impact is 25.
\<close>

theorem summary_needs_both_labels:
  assumes "collect_baseline_data E s = (Inr baseline_df, s')"
    and "print_summary_table E baseline_df freq_df thresh_df = (out, err)"
  shows "(\<exists>x. Improvement x \<in> set out)
           = (''InsecRPL'' \<in> set (map scenario baseline_df) \<and> ''SecRPL'' \<in> set (map scenario baseline_df))
       \<and> (\<exists>y. Attack_impact y \<in> set out)
           = (''InsecRPL'' \<in> set (map scenario baseline_df) \<and> ''SecRPL'' \<in> set (map scenario baseline_df))
       \<and> (\<not> (''InsecRPL'' \<in> set (map scenario baseline_df) \<and> ''SecRPL'' \<in> set (map scenario baseline_df))
            \<longrightarrow> err = None)
       \<and> (\<forall>a m. a \<in> set baseline_df \<and> scenario a = ''InsecRPL''
               \<and> m \<in> set baseline_df \<and> scenario m = ''SecRPL'' \<longrightarrow>
             (\<exists>p q. pdr a = Num p \<and> pdr m = Num q
                \<and> Attack_impact ((1 - p) * 100) \<in> set out
                \<and> (p \<noteq> 0 \<longrightarrow> Improvement (Fin ((q - p) / p * 100)) \<in> set out)
                \<and> (p = 0.75 \<and> q = 0.91 \<longrightarrow>
                     (\<exists>x y. Improvement (Fin x) \<in> set out \<and> \<bar>x - 21.33\<bar> < 0.005
                         \<and> Attack_impact y \<in> set out \<and> y = 25))))"
proof -
  from collect_baseline_data_runs [OF assms(1)] obtain o1 o2 o3 where
    df: "baseline_df = contributed o1 ''RPL'' @ contributed o2 ''InsecRPL'' @ contributed o3 ''SecRPL''"
    and n: "numeric_pdr o1" "numeric_pdr o2" "numeric_pdr o3"
    by auto
  note sm = summary_of_contributed [OF df n assms(2)]
  note sc = contributed_scenarios [OF df]
  have 1: "(\<exists>x. Improvement x \<in> set out)
           = (''InsecRPL'' \<in> set (map scenario baseline_df) \<and> ''SecRPL'' \<in> set (map scenario baseline_df))"
    using sm(1) sc(1,2) by simp
  have 2: "(\<exists>y. Attack_impact y \<in> set out)
           = (''InsecRPL'' \<in> set (map scenario baseline_df) \<and> ''SecRPL'' \<in> set (map scenario baseline_df))"
    using sm(2) sc(1,2) by simp
  have 3: "\<not> (''InsecRPL'' \<in> set (map scenario baseline_df) \<and> ''SecRPL'' \<in> set (map scenario baseline_df))
            \<longrightarrow> err = None"
    using sm(3) sc(1,2) by simp
  have 4: "\<exists>p q. pdr a = Num p \<and> pdr m = Num q
                \<and> Attack_impact ((1 - p) * 100) \<in> set out
                \<and> (p \<noteq> 0 \<longrightarrow> Improvement (Fin ((q - p) / p * 100)) \<in> set out)
                \<and> (p = 0.75 \<and> q = 0.91 \<longrightarrow>
                     (\<exists>x y. Improvement (Fin x) \<in> set out \<and> \<bar>x - 21.33\<bar> < 0.005
                         \<and> Attack_impact y \<in> set out \<and> y = 25))"
    if "a \<in> set baseline_df" "scenario a = ''InsecRPL''"
       "m \<in> set baseline_df" "scenario m = ''SecRPL''" for a m
  proof -
    from sc(3) [OF that(1,2)] obtain a' where a': "o2 = Some a'" "a = with_scenario a' ''InsecRPL''"
      by blast
    from sc(4) [OF that(3,4)] obtain m' where m': "o3 = Some m'" "m = with_scenario m' ''SecRPL''"
      by blast
    from sm(4) [OF a'(1) m'(1)] obtain p q where pq: "pdr a' = Num p" "pdr m' = Num q"
      "Attack_impact ((1 - p) * 100) \<in> set out"
      "p \<noteq> 0 \<longrightarrow> Improvement (Fin ((q - p) / p * 100)) \<in> set out"
      by blast
    have "p = 0.75 \<and> q = 0.91 \<longrightarrow>
            (\<exists>x y. Improvement (Fin x) \<in> set out \<and> \<bar>x - 21.33\<bar> < 0.005
                \<and> Attack_impact y \<in> set out \<and> y = 25)"
    proof
      assume v: "p = 0.75 \<and> q = 0.91"
      with pq(4) have "Improvement (Fin ((0.91 - 0.75) / 0.75 * 100)) \<in> set out" by simp
      moreover have "\<bar>(0.91 - 0.75) / 0.75 * 100 - 21.33\<bar> < (0.005 :: real)" by simp
      moreover from pq(3) v have "Attack_impact 25 \<in> set out" by simp
      ultimately show "\<exists>x y. Improvement (Fin x) \<in> set out \<and> \<bar>x - 21.33\<bar> < 0.005
                \<and> Attack_impact y \<in> set out \<and> y = 25"
        by blast
    qed
    with pq a'(2) m'(2) show ?thesis
      by (intro exI [of _ p] exI [of _ q]) (simp add: with_scenario_def)
  qed
  from 1 2 3 4 show ?thesis by blast
qed

theorem summary_needs_both_labels_witness:
  "collect_baseline_data example_env start =
     (Inr example_baseline,
      \<lparr>world = 3,
       runs = [(no_attack_invocation, Some no_attack_record),
               (attack_invocation 800 1000000000, Some attack_only_record),
               (attack_invocation 800 20, Some mitigated_record)]\<rparr>)
   \<and> pdr (with_scenario attack_only_record ''InsecRPL'') = Num 0.75
   \<and> pdr (with_scenario mitigated_record ''SecRPL'') = Num 0.91
   \<and> (\<exists>x y. Improvement (Fin x) \<in> set (fst (print_summary_table example_env example_baseline [] []))
          \<and> \<bar>x - 21.33\<bar> < 0.005
          \<and> Attack_impact y \<in> set (fst (print_summary_table example_env example_baseline [] []))
          \<and> y = 25)
   \<and> fst (collect_baseline_data first_two_fail start) = Inr [with_scenario healthy_record ''SecRPL'']
   \<and> ''InsecRPL'' \<notin> set (map scenario [with_scenario healthy_record ''SecRPL''])
   \<and> snd (print_summary_table first_two_fail [with_scenario healthy_record ''SecRPL''] [] []) = None
   \<and> \<not> (\<exists>x. Improvement x \<in> set (fst (print_summary_table first_two_fail
              [with_scenario healthy_record ''SecRPL''] [] [])))"
proof -
  have p: "print_summary_table example_env example_baseline [] [] =
      (fst (print_summary_table example_env example_baseline [] []),
       snd (print_summary_table example_env example_baseline [] []))"
    by simp
  have a: "with_scenario attack_only_record ''InsecRPL'' \<in> set example_baseline"
    "scenario (with_scenario attack_only_record ''InsecRPL'') = ''InsecRPL''"
    "pdr (with_scenario attack_only_record ''InsecRPL'') = Num 0.75"
    by (simp_all add: example_baseline_def with_scenario_def pdr_example)
  have m: "with_scenario mitigated_record ''SecRPL'' \<in> set example_baseline"
    "scenario (with_scenario mitigated_record ''SecRPL'') = ''SecRPL''"
    "pdr (with_scenario mitigated_record ''SecRPL'') = Num 0.91"
    by (simp_all add: example_baseline_def with_scenario_def pdr_example)
  from summary_needs_both_labels [OF baseline_example p]
  have "\<forall>a m. a \<in> set example_baseline \<and> scenario a = ''InsecRPL''
               \<and> m \<in> set example_baseline \<and> scenario m = ''SecRPL'' \<longrightarrow>
             (\<exists>p q. pdr a = Num p \<and> pdr m = Num q
                \<and> (p = 0.75 \<and> q = 0.91 \<longrightarrow>
                     (\<exists>x y. Improvement (Fin x) \<in> set (fst (print_summary_table example_env example_baseline [] [])) \<and> \<bar>x - 21.33\<bar> < 0.005
                         \<and> Attack_impact y \<in> set (fst (print_summary_table example_env example_baseline [] [])) \<and> y = 25)))"
    by blast
  from this [rule_format, of "with_scenario attack_only_record ''InsecRPL''"
      "with_scenario mitigated_record ''SecRPL''"] a m
  have "\<exists>x y. Improvement (Fin x) \<in> set (fst (print_summary_table example_env example_baseline [] []))
          \<and> \<bar>x - 21.33\<bar> < 0.005
          \<and> Attack_impact y \<in> set (fst (print_summary_table example_env example_baseline [] []))
          \<and> y = 25"
    by auto
  with baseline_example a(3) m(3)
  have present: "collect_baseline_data example_env start =
     (Inr example_baseline,
      \<lparr>world = 3,
       runs = [(no_attack_invocation, Some no_attack_record),
               (attack_invocation 800 1000000000, Some attack_only_record),
               (attack_invocation 800 20, Some mitigated_record)]\<rparr>)
   \<and> pdr (with_scenario attack_only_record ''InsecRPL'') = Num 0.75
   \<and> pdr (with_scenario mitigated_record ''SecRPL'') = Num 0.91
   \<and> (\<exists>x y. Improvement (Fin x) \<in> set (fst (print_summary_table example_env example_baseline [] []))
          \<and> \<bar>x - 21.33\<bar> < 0.005
          \<and> Attack_impact y \<in> set (fst (print_summary_table example_env example_baseline [] []))
          \<and> y = 25)"
    by blast
  have q: "print_summary_table first_two_fail [with_scenario healthy_record ''SecRPL''] [] [] =
      (fst (print_summary_table first_two_fail [with_scenario healthy_record ''SecRPL''] [] []),
       snd (print_summary_table first_two_fail [with_scenario healthy_record ''SecRPL''] [] []))"
    by simp
  have absent: "''InsecRPL'' \<notin> set (map scenario [with_scenario healthy_record ''SecRPL''])"
    by (simp add: with_scenario_def)
  note partial = summary_needs_both_labels [OF baseline_first_two_fail q]
  from partial [THEN conjunct1] absent
  have 1: "\<not> (\<exists>x. Improvement x \<in> set (fst (print_summary_table first_two_fail
              [with_scenario healthy_record ''SecRPL''] [] [])))"
    by simp
  from partial [THEN conjunct2, THEN conjunct2, THEN conjunct1] absent
  have 2: "snd (print_summary_table first_two_fail [with_scenario healthy_record ''SecRPL''] [] []) = None"
    by simp
  have 3: "fst (collect_baseline_data first_two_fail start) = Inr [with_scenario healthy_record ''SecRPL'']"
    by (simp add: baseline_first_two_fail)
  from present 1 2 3 absent show ?thesis by (intro conjI) (elim conjE, assumption)+
qed

section \<open>The frequency sweep\<close>



section \<open>The parameters held fixed\<close>

text \<open>
  Claim C10. Every run of the threshold sweep has attacker rate 800, attacker packet
  count 120, window 1.0, 25 nodes, area 60, traffic rate 16 and duration 120; the runs
  are made for the thresholds 5, 10, 20, 30, 50 in this order and differ in the threshold
  only (an execution that returns its dataset has made all five). Every row labelled
  \<^verbatim>\<open>InsecRPL\<close> (attack only), in the baseline dataset and in the frequency dataset, is
  the record of a run whose threshold is the literal 1000000000.
\<close>

theorem sweeps_fix_other_parameters:
  assumes "collect_threshold_data E s1 = (res_t, s1')"
    and "collect_baseline_data E s2 = (res_b, s2')"
    and "collect_attack_frequency_data E s3 = (rows_f, s3')"
  shows "(\<exists>outs. length outs \<le> 5
            \<and> runs s1' = runs s1 @ zip (map (\<lambda>t.
                  [(''attack'', ArgBool True), (''attackerPps'', ArgInt 800),
                   (''attackerPkt'', ArgInt 120), (''threshold'', ArgInt t),
                   (''windowSec'', ArgReal 1), (''nNodes'', ArgInt 25), (''area'', ArgInt 60),
                   (''rateKbps'', ArgInt 16), (''simTime'', ArgInt 120)]) [5, 10, 20, 30, 50]) outs
            \<and> (\<forall>rows. res_t = Inr rows \<longrightarrow> length outs = 5))
       \<and> (\<forall>rows r. res_b = Inr rows \<and> r \<in> set rows \<and> scenario r = ''InsecRPL'' \<longrightarrow>
            (\<exists>c m. (c, Some m) \<in> set (drop (length (runs s2)) (runs s2'))
                \<and> map_of c ''threshold'' = Some (ArgInt 1000000000)
                \<and> r = with_scenario m ''InsecRPL''))
       \<and> (\<forall>r. r \<in> set rows_f \<and> scenario r = ''InsecRPL'' \<longrightarrow>
            (\<exists>c m. (c, Some m) \<in> set (drop (length (runs s3)) (runs s3'))
                \<and> map_of c ''threshold'' = Some (ArgInt 1000000000)
                \<and> map_of c ''attackerPps'' = Some (ArgInt (attack_pps r))
                \<and> r = with_attack_pps m ''InsecRPL'' (attack_pps r)))"
proof -
  have T: "\<exists>outs. length outs \<le> 5
            \<and> runs s1' = runs s1 @ zip (map (\<lambda>t.
                  [(''attack'', ArgBool True), (''attackerPps'', ArgInt 800),
                   (''attackerPkt'', ArgInt 120), (''threshold'', ArgInt t),
                   (''windowSec'', ArgReal 1), (''nNodes'', ArgInt 25), (''area'', ArgInt 60),
                   (''rateKbps'', ArgInt 16), (''simTime'', ArgInt 120)]) [5, 10, 20, 30, 50]) outs
            \<and> (\<forall>rows. res_t = Inr rows \<longrightarrow> length outs = 5)"
  proof -
    from assms(1) have "threshold_loop E thresholds [] s1 = (res_t, s1')"
      by (simp add: collect_threshold_data_def)
    from threshold_loop_runs [OF this] obtain outs where o: "length outs \<le> length thresholds"
      "runs s1' = runs s1 @ zip (map (attack_invocation 800) thresholds) outs"
      "(case res_t of
          Inr rows \<Rightarrow> length outs = length thresholds \<and> rows = [] @ threshold_rows thresholds outs
        | Inl e \<Rightarrow> e = ValueError \<and> outs \<noteq> [] \<and> \<not> numeric_pdr (last outs))"
      by blast
    show ?thesis
      by (rule exI [of _ outs]) (use o in \<open>auto simp: thresholds_def attack_invocation_def\<close>)
  qed
  have B: "\<exists>c m. (c, Some m) \<in> set (drop (length (runs s2)) (runs s2'))
                \<and> map_of c ''threshold'' = Some (ArgInt 1000000000)
                \<and> r = with_scenario m ''InsecRPL''"
    if "res_b = Inr rows" "r \<in> set rows" "scenario r = ''InsecRPL''" for rows r
  proof -
    from collect_baseline_data_runs [OF assms(2)] that(1) obtain o1 o2 o3 where
      log: "runs s2' = runs s2 @ [(no_attack_invocation, o1),
              (attack_invocation 800 1000000000, o2), (attack_invocation 800 20, o3)]"
      and rows: "rows = contributed o1 ''RPL'' @ contributed o2 ''InsecRPL'' @ contributed o3 ''SecRPL''"
      by auto
    from contributed_scenarios(3) [OF rows that(2,3)] obtain a where
      "o2 = Some a" "r = with_scenario a ''InsecRPL''" by blast
    with log show ?thesis
      by (intro exI [of _ "attack_invocation 800 1000000000"] exI [of _ a])
         (simp add: attack_invocation_def)
  qed
  have F: "\<exists>c m. (c, Some m) \<in> set (drop (length (runs s3)) (runs s3'))
                \<and> map_of c ''threshold'' = Some (ArgInt 1000000000)
                \<and> map_of c ''attackerPps'' = Some (ArgInt (attack_pps r))
                \<and> r = with_attack_pps m ''InsecRPL'' (attack_pps r)"
    if "r \<in> set rows_f" "scenario r = ''InsecRPL''" for r
  proof -
    from collect_attack_frequency_data_runs [OF assms(3)] obtain outs lst where
      log: "runs s3' = runs s3 @ zip (frequency_invocations frequencies) outs
                          @ [(no_attack_invocation, lst)]"
      and rows: "rows_f = frequency_rows frequencies outs
              @ (case lst of None \<Rightarrow> []
                 | Some m \<Rightarrow> map (\<lambda>pps. with_attack_pps m ''RPL'' pps) frequencies)"
      by blast
    from that rows have "r \<in> set (frequency_rows frequencies outs)"
      by (auto simp: with_attack_pps_def split: option.splits)
    from frequency_rows_attack_only [OF this that(2)] obtain m where
      "(attack_invocation (attack_pps r) 1000000000, Some m)
            \<in> set (zip (frequency_invocations frequencies) outs)"
      "r = with_attack_pps m ''InsecRPL'' (attack_pps r)"
      by blast
    with log show ?thesis
      by (intro exI [of _ "attack_invocation (attack_pps r) 1000000000"] exI [of _ m])
         (simp add: attack_invocation_def)
  qed
  from T B F show ?thesis by blast
qed

theorem sweeps_fix_other_parameters_witness:
  "map fst (runs (snd (collect_threshold_data all_healthy start))) =
     map (\<lambda>t. [(''attack'', ArgBool True), (''attackerPps'', ArgInt 800),
               (''attackerPkt'', ArgInt 120), (''threshold'', ArgInt t),
               (''windowSec'', ArgReal 1), (''nNodes'', ArgInt 25), (''area'', ArgInt 60),
               (''rateKbps'', ArgInt 16), (''simTime'', ArgInt 120)]) [5, 10, 20, 30, 50]
   \<and> (\<exists>c m. (c, Some m) \<in> set (runs (snd (collect_baseline_data all_healthy start)))
         \<and> map_of c ''threshold'' = Some (ArgInt 1000000000)
         \<and> with_scenario healthy_record ''InsecRPL'' = with_scenario m ''InsecRPL'')
   \<and> (\<exists>c m. (c, Some m) \<in> set (runs (snd (collect_attack_frequency_data all_healthy start)))
         \<and> map_of c ''threshold'' = Some (ArgInt 1000000000)
         \<and> map_of c ''attackerPps'' = Some (ArgInt 400)
         \<and> with_attack_pps healthy_record ''InsecRPL'' 400 = with_attack_pps m ''InsecRPL'' 400)"
proof -
  have f: "collect_attack_frequency_data all_healthy start =
      (fst (collect_attack_frequency_data all_healthy start),
       snd (collect_attack_frequency_data all_healthy start))"
    by simp
  note main = sweeps_fix_other_parameters [OF threshold_sweep_all_healthy baseline_all_healthy f]
  have 1: "map fst (runs (snd (collect_threshold_data all_healthy start))) =
     map (\<lambda>t. [(''attack'', ArgBool True), (''attackerPps'', ArgInt 800),
               (''attackerPkt'', ArgInt 120), (''threshold'', ArgInt t),
               (''windowSec'', ArgReal 1), (''nNodes'', ArgInt 25), (''area'', ArgInt 60),
               (''rateKbps'', ArgInt 16), (''simTime'', ArgInt 120)]) [5, 10, 20, 30, 50]"
    by (simp add: threshold_sweep_all_healthy attack_invocation_def)
  have b: "with_scenario healthy_record ''InsecRPL''
      \<in> set [with_scenario healthy_record ''RPL'', with_scenario healthy_record ''InsecRPL'',
             with_scenario healthy_record ''SecRPL'']"
    "scenario (with_scenario healthy_record ''InsecRPL'') = ''InsecRPL''"
    by (simp_all add: with_scenario_def)
  from main [THEN conjunct2, THEN conjunct1, rule_format,
      of "[with_scenario healthy_record ''RPL'', with_scenario healthy_record ''InsecRPL'',
           with_scenario healthy_record ''SecRPL'']" "with_scenario healthy_record ''InsecRPL''"] b
  have "\<exists>c m. (c, Some m) \<in> set (drop (length (runs start))
                 (runs \<lparr>world = 3,
       runs = [(no_attack_invocation, Some healthy_record),
               (attack_invocation 800 1000000000, Some healthy_record),
               (attack_invocation 800 20, Some healthy_record)]\<rparr>))
                \<and> map_of c ''threshold'' = Some (ArgInt 1000000000)
                \<and> with_scenario healthy_record ''InsecRPL'' = with_scenario m ''InsecRPL''"
    by simp
  then have 2: "\<exists>c m. (c, Some m) \<in> set (runs (snd (collect_baseline_data all_healthy start)))
         \<and> map_of c ''threshold'' = Some (ArgInt 1000000000)
         \<and> with_scenario healthy_record ''InsecRPL'' = with_scenario m ''InsecRPL''"
    by (simp add: baseline_all_healthy runs_start)
  have c: "with_attack_pps healthy_record ''InsecRPL'' 400
      \<in> set (fst (collect_attack_frequency_data all_healthy start))"
    "scenario (with_attack_pps healthy_record ''InsecRPL'' 400) = ''InsecRPL''"
    "attack_pps (with_attack_pps healthy_record ''InsecRPL'' 400) = 400"
    by (simp_all add: frequency_sweep_all_healthy with_attack_pps_def)
  from main [THEN conjunct2, THEN conjunct2, rule_format,
      of "with_attack_pps healthy_record ''InsecRPL'' 400"] c(1,2)
  have "\<exists>c m. (c, Some m) \<in> set (drop (length (runs start))
                 (runs (snd (collect_attack_frequency_data all_healthy start))))
                \<and> map_of c ''threshold'' = Some (ArgInt 1000000000)
                \<and> map_of c ''attackerPps'' = Some (ArgInt (attack_pps (with_attack_pps healthy_record ''InsecRPL'' 400)))
                \<and> with_attack_pps healthy_record ''InsecRPL'' 400 = with_attack_pps m ''InsecRPL'' (attack_pps (with_attack_pps healthy_record ''InsecRPL'' 400))"
    by simp
  then have 3: "\<exists>c m. (c, Some m) \<in> set (runs (snd (collect_attack_frequency_data all_healthy start)))
         \<and> map_of c ''threshold'' = Some (ArgInt 1000000000)
         \<and> map_of c ''attackerPps'' = Some (ArgInt 400)
         \<and> with_attack_pps healthy_record ''InsecRPL'' 400 = with_attack_pps m ''InsecRPL'' 400"
    by (simp add: c(3) runs_start)
  from 1 2 3 show ?thesis by (intro conjI)
qed

section \<open>The invariant of a record\<close>

text \<open>
  Claim C8, as the script has it. The script stores the values of the result files as
  they are read and checks no range. If every run of the simulator leaves result files
  whose values (where they can be read) are numbers with \<^verbatim>\<open>pdr\<close> in [0, 1], received at
  most transmitted, and all counts non-negative, then every record of the three datasets
  satisfies the same.
\<close>

theorem records_in_range_when_artifacts_are:
  assumes "\<forall>c w rc w'. subprocess_run E c w = (rc, w') \<longrightarrow> artifacts_invariant E w'"
    and "collect_baseline_data E s1 = (res_b, s1')"
    and "collect_attack_frequency_data E s2 = (rows_f, s2')"
    and "collect_threshold_data E s3 = (res_t, s3')"
  shows "(\<forall>rows. res_b = Inr rows \<longrightarrow> list_all record_invariant rows)
       \<and> list_all record_invariant rows_f
       \<and> (\<forall>rows. res_t = Inr rows \<longrightarrow> list_all record_invariant rows)"
proof -
  have B: "list_all record_invariant rows" if "res_b = Inr rows" for rows
  proof -
    obtain o1 t1 where r1: "run_simulation E False 800 20 25 1 120 s1 = (o1, t1)"
      by (cases "run_simulation E False 800 20 25 1 120 s1")
    obtain o2 t2 where r2: "run_simulation E True 800 1000000000 25 1 120 t1 = (o2, t2)"
      by (cases "run_simulation E True 800 1000000000 25 1 120 t1")
    obtain o3 t3 where r3: "run_simulation E True 800 20 25 1 120 t2 = (o3, t3)"
      by (cases "run_simulation E True 800 20 25 1 120 t2")
    from assms(2) that r1 r2 r3
    have "rows = contributed o1 ''RPL'' @ contributed o2 ''InsecRPL'' @ contributed o3 ''SecRPL''"
      by (auto simp: collect_baseline_data_def append_labelled_cases split: if_splits)
    then show ?thesis
      using run_in_range [OF assms(1)] r1 r2 r3
      by (cases o1; cases o2; cases o3) (auto simp: contributed_def in_range_rows)
  qed
  have F: "list_all record_invariant rows_f"
  proof -
    obtain all_data t1 where lp: "frequency_loop E frequencies [] s2 = (all_data, t1)"
      by (cases "frequency_loop E frequencies [] s2")
    obtain lst t2 where r: "run_simulation E False 800 20 25 1 120 t1 = (lst, t2)"
      by (cases "run_simulation E False 800 20 25 1 120 t1")
    from frequency_loop_in_range [OF assms(1) lp] have a: "list_all record_invariant all_data"
      by simp
    from assms(3) lp r have "rows_f = (case lst of None \<Rightarrow> all_data
             | Some m \<Rightarrow> all_data @ map (\<lambda>pps. with_attack_pps m ''RPL'' pps) frequencies)"
      by (auto simp: collect_attack_frequency_data_def)
    then show ?thesis
      using a run_in_range [OF assms(1)] r
      by (cases lst) (auto simp: in_range_rows list_all_iff)
  qed
  have T: "list_all record_invariant rows" if "res_t = Inr rows" for rows
    using threshold_loop_in_range [OF assms(1), of thresholds "[]" s3 rows s3'] assms(4) that
    by (simp add: collect_threshold_data_def)
  from B F T show ?thesis by blast
qed

theorem records_in_range_when_artifacts_are_witness:
  "artifacts_invariant all_healthy 1
   \<and> list_all record_invariant
       [with_scenario healthy_record ''RPL'', with_scenario healthy_record ''InsecRPL'',
        with_scenario healthy_record ''SecRPL'']
   \<and> list_all record_invariant (fst (collect_attack_frequency_data all_healthy start))
   \<and> list_all record_invariant
       (map (\<lambda>t. with_threshold healthy_record ''SecRPL'' t) [5, 10, 20, 30, 50])"
proof -
  have h: "\<forall>c w rc w'. subprocess_run all_healthy c w = (rc, w') \<longrightarrow> artifacts_invariant all_healthy w'"
    by (simp add: all_healthy_in_range)
  have f: "collect_attack_frequency_data all_healthy start =
      (fst (collect_attack_frequency_data all_healthy start),
       snd (collect_attack_frequency_data all_healthy start))"
    by simp
  from records_in_range_when_artifacts_are
    [OF h baseline_all_healthy f threshold_sweep_all_healthy]
  show ?thesis by (simp add: all_healthy_in_range)
qed

text \<open>
  Without the condition on the files the claim fails: a simulator that reports 10 packets
  sent, 20 received and a ratio of 1.5 gets exactly these values into the baseline
  dataset.
\<close>

theorem out_of_range_record_is_stored:
  "fst (collect_baseline_data out_of_range_env start) =
     Inr [with_scenario out_of_range_record ''RPL'', with_scenario out_of_range_record ''InsecRPL'',
          with_scenario out_of_range_record ''SecRPL'']
   \<and> pdr (with_scenario out_of_range_record ''RPL'') = Num 1.5
   \<and> tx (with_scenario out_of_range_record ''RPL'') = Num 10
   \<and> rx (with_scenario out_of_range_record ''RPL'') = Num 20
   \<and> \<not> record_invariant (with_scenario out_of_range_record ''RPL'')"
  by (simp add: collect_baseline_data_def append_labelled_cases numeric_pdr_def is_num_def
      contributed_def run_out_of_range start_def with_scenario_def out_of_range_record_def
      record_of_def record_invariant_def in_range_def)

section \<open>Charts for a partial baseline\<close>

text \<open>
  Claim C9 does not hold of the script. When the run without attack and the attack-only
  run of the baseline experiment fail and the run with mitigation succeeds, the baseline
  dataset is not empty and has no row labelled \<^verbatim>\<open>RPL\<close>. With a threshold dataset that
  is not empty, graph 4 then raises \<^verbatim>\<open>IndexError\<close> at
  \<^verbatim>\<open>baseline_df[baseline_df['scenario'] == 'RPL']['pdr'].values[0]\<close>: the exception leaves
  the function, and figures 4, 5 and 6 are not produced.
\<close>

theorem threshold_chart_raises_on_partial_baseline:
  "fst (collect_baseline_data first_two_fail start) = Inr [with_scenario healthy_record ''SecRPL'']
   \<and> create_research_style_graphs E [with_scenario healthy_record ''SecRPL''] []
        [with_threshold healthy_record ''SecRPL'' 5] = ([], Some IndexError)"
proof -
  have "graph4 [with_scenario healthy_record ''SecRPL''] [with_threshold healthy_record ''SecRPL'' 5]
      = Inl IndexError"
    by (rule graph4_raises) (simp_all add: with_scenario_def)
  then show ?thesis
    by (simp add: baseline_first_two_fail create_research_style_graphs_def graph1_def graph2_def
        graph3_def frequency_graph_def saved_def)
qed

end
